theory Spec2Isabelle
  imports Main "HOL-Library.Word" "HOL-Library.List_Lexorder" "HOL-Library.AList" "HOL-Library.Sublist"
begin

section \<open>Merge and split of block-partitioned RLE label volumes (package labelvol)\<close>

text \<open>
  The development embeds \<^verbatim>\<open>diffBlock\<close>, \<^verbatim>\<open>MergeLabels\<close>, \<^verbatim>\<open>SplitLabels\<close> and
  \<^verbatim>\<open>writeLabelVol\<close> of the labelvol part of
  \<^verbatim>\<open>src/datatype/googlevoxels/googlevoxels.go\<close>.  Go errors and run-time panics are
  values of the type \<open>error\<close>; a function that can fail returns \<open>error + 'a\<close>.
\<close>

subsection \<open>Errors\<close>

datatype error =
    Error string      \<comment> \<open>a Go \<^verbatim>\<open>error\<close> value returned to the caller\<close>
  | Panic string      \<comment> \<open>a run-time panic (nil dereference, index out of range)\<close>

subsection \<open>Runs (package dvid, not part of the source file)\<close>

text \<open>
  \<^verbatim>\<open>dvid.RLE\<close> is a struct of a start point (x, y, z) and a length, all \<^verbatim>\<open>int32\<close>;
  \<^verbatim>\<open>dvid.RLEs\<close> is a slice of them.  No claim below depends on 32-bit overflow of
  coordinates, so they are integers here.
\<close>

record RLE =
  start :: "int \<times> int \<times> int"
  length_RLE :: int

type_synonym RLEs = "RLE list"

definition zeroRLE :: RLE where
  \<comment> \<open>the zero value of the struct, as \<^verbatim>\<open>make(dvid.RLEs, n)\<close> fills a slice\<close>
  "zeroRLE = \<lparr>start = (0, 0, 0), length_RLE = 0\<rparr>"

definition Excise :: "RLE \<Rightarrow> RLE \<Rightarrow> RLEs option" where
  \<comment> \<open>Modelled from the spec: \<^verbatim>\<open>RLE.Excise\<close> is in package dvid, outside the source file.
      ``Given one original run and one cut run, returns the list of 0-2 fragments of orig
      remaining after removing the portion overlapping cut; returns a sentinel "no
      intersection" when the runs do not overlap, distinguished from "intersection with
      zero remaining fragments".''  \<open>None\<close> is the nil sentinel.\<close>
  "Excise orig rle2 =
     (case (start orig, start rle2) of ((x0, y, z), (cx0, cy, cz)) \<Rightarrow>
        let x1 = x0 + length_RLE orig - 1; cx1 = cx0 + length_RLE rle2 - 1
        in if y = cy \<and> z = cz \<and> cx0 \<le> x1 \<and> x0 \<le> cx1
           then Some ((if x0 < cx0 then [\<lparr>start = (x0, y, z), length_RLE = cx0 - x0\<rparr>] else []) @
                      (if cx1 < x1 then [\<lparr>start = (cx1 + 1, y, z), length_RLE = x1 - cx1\<rparr>] else []))
           else None)"

definition Less :: "RLE \<Rightarrow> RLE \<Rightarrow> bool" where
  \<comment> \<open>Modelled from the spec: the \<^verbatim>\<open>sort.Interface\<close> of \<^verbatim>\<open>dvid.RLEs\<close> is outside the
      source file.  ``Sort both run lists ascending by start coordinate'', coordinates
      ordered Z-major, then Y, then X.\<close>
  "Less a b =
     (case (start a, start b) of ((ax, ay, az), (bx, by, bz)) \<Rightarrow>
        az < bz \<or> (az = bz \<and> (ay < by \<or> (ay = by \<and> ax < bx))))"

fun insertRLE :: "RLE \<Rightarrow> RLEs \<Rightarrow> RLEs" where
  "insertRLE r [] = [r]"
| "insertRLE r (x # xs) = (if Less x r then x # insertRLE r xs else r # x # xs)"

definition sort_Sort :: "RLEs \<Rightarrow> RLEs" where
  \<comment> \<open>\<^verbatim>\<open>sort.Sort\<close> on a run slice: the runs in ascending \<open>Less\<close> order.  Go's sort is not
      stable; this one keeps runs with equal start in their order.\<close>
  "sort_Sort rs = foldr insertRLE rs []"

definition numVoxels :: "RLEs \<Rightarrow> int" where
  \<comment> \<open>Modelled from the spec: ``numVoxels(RLEs): sum of run lengths''.\<close>
  "numVoxels rs = sum_list (map length_RLE rs)"

subsection \<open>The linked list of \<^verbatim>\<open>container/list\<close>\<close>

text \<open>
  The list \<^verbatim>\<open>l\<close> is a HOL list; an element pointer \<^verbatim>\<open>e\<close> is the position of the element,
  \<open>None\<close> for the nil pointer.  \<^verbatim>\<open>Prev\<close> of the front element and \<^verbatim>\<open>Next\<close> of the back
  element are nil.
\<close>

definition Front :: "'a list \<Rightarrow> nat option" where
  "Front l = (if l = [] then None else Some 0)"

definition Prev :: "nat \<Rightarrow> nat option" where
  "Prev k = (if k = 0 then None else Some (k - 1))"

definition Next :: "'a list \<Rightarrow> nat \<Rightarrow> nat option" where
  "Next l k = (if Suc k < length l then Some (Suc k) else None)"

definition InsertAfter :: "'a list \<Rightarrow> 'a \<Rightarrow> nat \<Rightarrow> 'a list" where
  "InsertAfter l v k = take (Suc k) l @ v # drop (Suc k) l"

definition Remove :: "'a list \<Rightarrow> nat \<Rightarrow> 'a list" where
  "Remove l k = take k l @ drop (Suc k) l"

subsection \<open>\<^verbatim>\<open>diffBlock\<close>\<close>

fun firstFrags :: "RLE \<Rightarrow> RLEs \<Rightarrow> RLEs option" where
  \<comment> \<open>the inner loop \<^verbatim>\<open>for i := si; i < len(srles); i++\<close> up to its \<^verbatim>\<open>break\<close>: the
      fragments of the first split run from \<^verbatim>\<open>si\<close> on that intersects \<^verbatim>\<open>orig\<close>;
      \<open>None\<close> when the loop ends with \<^verbatim>\<open>badsplit\<close> still true\<close>
  "firstFrags orig [] = None"
| "firstFrags orig (s # ss) =
     (case Excise orig s of None \<Rightarrow> firstFrags orig ss | Some frags \<Rightarrow> Some frags)"

function diffLoop :: "RLEs \<Rightarrow> RLEs \<Rightarrow> nat option \<Rightarrow> nat \<Rightarrow> error + RLEs" where
  "diffLoop srles l e si =
     (case e of
        None \<Rightarrow> Inr l
      | Some k \<Rightarrow>
          if \<not> si < length srles then Inr l
          else (case firstFrags (l ! k) (drop si srles) of
                  None \<Rightarrow> Inl (Error ''split is not contained within single label'')
                | Some frags \<Rightarrow>
                    let l1 = foldl (\<lambda>l' rle. InsertAfter l' rle k) l frags;
                        left = Prev k;
                        l2 = Remove l1 k
                    in (case left of
                          None \<Rightarrow> Inl (Panic ''nil pointer dereference'')
                        | Some j \<Rightarrow> diffLoop srles l2 (Next l2 j) (si + 1))))"
  by pat_completeness auto
termination
  by (relation "measure (\<lambda>(srles, l, e, si). length srles - si)") auto

definition diffBlock :: "RLEs \<Rightarrow> RLEs \<Rightarrow> error + (RLEs \<times> bool)" where
  \<comment> \<open>the result pair is \<^verbatim>\<open>(modified, dup)\<close>; \<open>Inl\<close> is \<^verbatim>\<open>err\<close> or a panic.  The last
      loop of the source writes every remaining run to \<^verbatim>\<open>modified[i]\<close> with \<^verbatim>\<open>i\<close>
      staying 0.\<close>
  "diffBlock split orig =
     (let srles = sort_Sort split;
          orles = sort_Sort orig;
          l = foldl (\<lambda>l' rle. l' @ [rle]) [] orles
      in case diffLoop srles l (Front l) 0 of
           Inl err \<Rightarrow> Inl err
         | Inr l' \<Rightarrow>
             if length l' = 0 then Inr ([], True)
             else Inr (foldl (\<lambda>m rle. m[0 := rle]) (replicate (length l') zeroRLE) l', False))"

subsection \<open>\<^verbatim>\<open>diffBlock\<close> on slices that share backing arrays\<close>

text \<open>
  A Go slice argument is a reference to a backing array.  The heap maps an address (the
  position in the list) to the array stored there; \<^verbatim>\<open>make\<close> allocates at a fresh
  address, \<^verbatim>\<open>copy\<close> overwrites the destination's elements, and \<^verbatim>\<open>sort.Sort\<close> permutes
  the array it is given in place.  The linked list holds copies of the runs (a run is a
  struct value), so it stays a value.
\<close>

type_synonym heap = "RLEs list"

definition make_RLEs :: "heap \<Rightarrow> nat \<Rightarrow> heap \<times> nat" where
  "make_RLEs h n = (h @ [replicate n zeroRLE], length h)"

definition copy_RLEs :: "heap \<Rightarrow> nat \<Rightarrow> nat \<Rightarrow> heap" where
  \<comment> \<open>\<^verbatim>\<open>copy(dst, src)\<close> copies as many elements as the shorter slice has\<close>
  "copy_RLEs h dst src =
     (let n = min (length (h ! dst)) (length (h ! src))
      in h[dst := take n (h ! src) @ drop n (h ! dst)])"

definition sort_Sort_heap :: "heap \<Rightarrow> nat \<Rightarrow> heap" where
  "sort_Sort_heap h a = h[a := sort_Sort (h ! a)]"

definition diffBlock_heap :: "heap \<Rightarrow> nat \<Rightarrow> nat \<Rightarrow> heap \<times> (error + (nat option \<times> bool))" where
  \<comment> \<open>\<^verbatim>\<open>split\<close> and \<^verbatim>\<open>orig\<close> are addresses; \<^verbatim>\<open>modified\<close> is the address of a new array,
      or \<open>None\<close> for the nil slice\<close>
  "diffBlock_heap h split orig =
     (let (h1, srles) = make_RLEs h (length (h ! split));
          h2 = copy_RLEs h1 srles split;
          (h3, orles) = make_RLEs h2 (length (h2 ! orig));
          h4 = copy_RLEs h3 orles orig;
          h5 = sort_Sort_heap h4 srles;
          h6 = sort_Sort_heap h5 orles;
          l = foldl (\<lambda>l' rle. l' @ [rle]) [] (h6 ! orles)
      in case diffLoop (h6 ! srles) l (Front l) 0 of
           Inl err \<Rightarrow> (h6, Inl err)
         | Inr l' \<Rightarrow>
             if length l' = 0 then (h6, Inr (None, True))
             else let (h7, modified) = make_RLEs h6 (length l');
                      h8 = foldl (\<lambda>h' rle. h'[modified := (h' ! modified)[0 := rle]]) h7 l'
                  in (h8, Inr (Some modified, False)))"

subsection \<open>Labels, blocks, the store and the events\<close>

type_synonym byte = "8 word"
type_synonym bytes = "byte list"
type_synonym IZYXString = bytes   \<comment> \<open>a Go string; \<^verbatim>\<open><\<close> on it compares bytes lexicographically\<close>
type_synonym label = "64 word"
type_synonym VersionID = nat
type_synonym Point3d = "int \<times> int \<times> int"
type_synonym BlockRLEs = "(IZYXString \<times> RLEs) list"
  \<comment> \<open>a Go map from block coordinate to runs, in the order a \<^verbatim>\<open>range\<close> loop visits it\<close>
type_synonym key = bytes
type_synonym store = "(key \<times> bytes) list"
type_synonym InstanceVersion = "string \<times> VersionID"
type_synonym DirtyCache = "InstanceVersion \<times> label \<Rightarrow> nat"

record Data =
  DataName :: string
  BlockSize :: Point3d

record MergeOp =
  Target :: label
  Merged :: "label list"   \<comment> \<open>the set \<^verbatim>\<open>m.Merged\<close>, in the order the \<^verbatim>\<open>range\<close> loop visits it\<close>

datatype EventKind =
    MergeStartEvent | MergeBlockEvent | MergeEndEvent
  | SplitStartEvent | SplitLabelEvent | SplitEndEvent
  | ChangeSizeEvent

datatype Delta =
    DeltaMergeStart MergeOp
  | DeltaMerge MergeOp "IZYXString list"
  | DeltaMergeEnd MergeOp
  | DeltaDeleteSize label "64 word" bool          \<comment> \<open>Label, OldSize, OldKnown\<close>
  | DeltaReplaceSize label "64 word" "64 word"    \<comment> \<open>Label, OldSize, NewSize\<close>
  | DeltaSplitStart label label
  | DeltaSplit label label BlockRLEs "IZYXString list"
  | DeltaSplitEnd label label
  | DeltaNewSize label "64 word"                  \<comment> \<open>Label, Size\<close>
  | DeltaModSize label "64 word"                  \<comment> \<open>Label, SizeChange (an \<^verbatim>\<open>int64\<close>, two's complement)\<close>

type_synonym SyncEvent = "string \<times> EventKind"
type_synonym SyncMessage = "VersionID \<times> Delta"

datatype batchOp = Put key bytes | Delete key

text \<open>
  What the two functions use of the packages storage, datastore, labels and dvid, none of
  which is in the source file.  A component ending in \<open>_err\<close> is the error a call
  returns, \<open>None\<close> when it succeeds.
\<close>

record env =
  SmallDataStore_err :: "string option"
  KeyValueBatcher :: bool                  \<comment> \<open>the store is batch-enabled\<close>
  NotifySubscribers :: "SyncEvent \<Rightarrow> SyncMessage \<Rightarrow> string option"
  GetLabelRLEs :: "store \<Rightarrow> VersionID \<Rightarrow> label \<Rightarrow> string + BlockRLEs"
  RLEs_Add :: "RLEs \<Rightarrow> RLEs \<Rightarrow> RLEs"      \<comment> \<open>the receiver after \<^verbatim>\<open>toRLEs.Add(fromRLEs)\<close>\<close>
  NewIndex :: "label \<Rightarrow> bytes \<Rightarrow> key"
  DecodeKey :: "key \<Rightarrow> string + (label \<times> bytes)"
  MinIndexZYX :: Point3d
  MaxIndexZYX :: Point3d
  IndexZYX_Bytes :: "Point3d \<Rightarrow> bytes"
  IZYXString_Z :: "IZYXString \<Rightarrow> string + int"
  DeleteRange_err :: "key \<Rightarrow> key \<Rightarrow> string option"
  ProcessRange_err :: "key \<Rightarrow> key \<Rightarrow> string option"
  Commit_err :: "batchOp list \<Rightarrow> string option"
  MarshalBinary :: "RLEs \<Rightarrow> string + bytes"
  UnmarshalBinary :: "bytes \<Rightarrow> string + RLEs"
  NewLabel :: "VersionID \<Rightarrow> label \<times> string option"
  EncodingBinary :: byte
  UnmarshalBinaryReader :: "bytes \<Rightarrow> 32 word \<Rightarrow> string + RLEs"
  Partition :: "RLEs \<Rightarrow> Point3d \<Rightarrow> string + BlockRLEs"

text \<open>
  The state the functions act on: the block entries of the key-value store, the global
  \<^verbatim>\<open>dirtyLabels\<close>, the notifications published so far (every call of
  \<^verbatim>\<open>datastore.NotifySubscribers\<close>, in order) and the lines written by \<^verbatim>\<open>dvid.Errorf\<close>.
\<close>

record world =
  store :: store
  dirtyLabels :: DirtyCache
  events :: "(SyncEvent \<times> SyncMessage) list"
  errlog :: "string list"

definition Incr :: "DirtyCache \<Rightarrow> InstanceVersion \<Rightarrow> label \<Rightarrow> DirtyCache" where
  \<comment> \<open>Modelled from the spec: \<^verbatim>\<open>labels.DirtyCache\<close> is outside the source file.  ``A
      reference-counted guard, incremented on operation start, decremented on completion'';
      ``incr / decr mark a single label dirty / clean''.\<close>
  "Incr dc iv l = dc((iv, l) := dc (iv, l) + 1)"

definition Decr :: "DirtyCache \<Rightarrow> InstanceVersion \<Rightarrow> label \<Rightarrow> DirtyCache" where
  \<comment> \<open>Modelled from the spec: see \<open>Incr\<close>.\<close>
  "Decr dc iv l = dc((iv, l) := dc (iv, l) - 1)"

definition AddMerge :: "DirtyCache \<Rightarrow> InstanceVersion \<Rightarrow> MergeOp \<Rightarrow> DirtyCache" where
  \<comment> \<open>Modelled from the spec: ``addMerge marks target and all merged-from labels dirty''.\<close>
  "AddMerge dc iv m = fold (\<lambda>l dc'. Incr dc' iv l) (Merged m) (Incr dc iv (Target m))"

definition RemoveMerge :: "DirtyCache \<Rightarrow> InstanceVersion \<Rightarrow> MergeOp \<Rightarrow> DirtyCache" where
  \<comment> \<open>Modelled from the spec: ``removeMerge clears them''.\<close>
  "RemoveMerge dc iv m = fold (\<lambda>l dc'. Decr dc' iv l) (Merged m) (Decr dc iv (Target m))"

definition applyOp :: "store \<Rightarrow> batchOp \<Rightarrow> store" where
  "applyOp st bop = (case bop of Put k val \<Rightarrow> AList.update k val st | Delete k \<Rightarrow> AList.delete k st)"

definition Commit :: "env \<Rightarrow> batchOp list \<Rightarrow> store \<Rightarrow> string + store" where
  \<comment> \<open>Modelled from the spec: ``a batch object supporting queued put/delete with atomic
      commit''.\<close>
  "Commit env batch st =
     (case Commit_err env batch of Some e \<Rightarrow> Inl e | None \<Rightarrow> Inr (foldl applyOp st batch))"

definition DeleteRange :: "env \<Rightarrow> store \<Rightarrow> key \<Rightarrow> key \<Rightarrow> string + store" where
  \<comment> \<open>Modelled from the spec: the storage collaborator's ``delete-range''.\<close>
  "DeleteRange env st kmin kmax =
     (case DeleteRange_err env kmin kmax of
        Some e \<Rightarrow> Inl e
      | None \<Rightarrow> Inr (filter (\<lambda>(k, val). \<not> (kmin \<le> k \<and> k \<le> kmax)) st))"

fun processChunks :: "('s \<Rightarrow> key \<times> bytes \<Rightarrow> error + 's) \<Rightarrow> (key \<times> bytes) list \<Rightarrow> 's \<Rightarrow> error + 's" where
  "processChunks f [] s = Inr s"
| "processChunks f (chunk # rest) s =
     (case f s chunk of Inl err \<Rightarrow> Inl err | Inr s' \<Rightarrow> processChunks f rest s')"

definition ProcessRange ::
  "env \<Rightarrow> store \<Rightarrow> key \<Rightarrow> key \<Rightarrow> ('s \<Rightarrow> key \<times> bytes \<Rightarrow> error + 's) \<Rightarrow> 's \<Rightarrow> error + 's" where
  \<comment> \<open>Modelled from the spec: ``range scan with a per-key callback'', visiting the keys of
      the range in key order and stopping at the first error of the callback.  The state
      \<open>'s\<close> is what the callback closes over.\<close>
  "ProcessRange env st begKey endKey f s =
     (case ProcessRange_err env begKey endKey of
        Some e \<Rightarrow> Inl (Error e)
      | None \<Rightarrow> processChunks f (sort_key fst (filter (\<lambda>(k, val). begKey \<le> k \<and> k \<le> endKey) st)) s)"

definition NumVoxels :: "BlockRLEs \<Rightarrow> 64 word" where
  \<comment> \<open>Modelled from the spec: ``its total voxel count is the sum of all run lengths'', as
      a \<^verbatim>\<open>uint64\<close>.\<close>
  "NumVoxels brles = sum_list (map (\<lambda>(blk, rles). word_of_int (numVoxels rles)) brles)"

definition Stats :: "RLEs \<Rightarrow> 64 word \<times> nat" where
  \<comment> \<open>Modelled from the spec: the voxel count of a span list (and its number of runs).\<close>
  "Stats rles = (word_of_int (numVoxels rles), length rles)"

definition SortedKeys :: "BlockRLEs \<Rightarrow> IZYXString list" where
  \<comment> \<open>Modelled from the spec: ``its block coordinates sorted ascending''.\<close>
  "SortedKeys brles = sort (map fst brles)"

definition lookupRLEs :: "BlockRLEs \<Rightarrow> IZYXString \<Rightarrow> RLEs" where
  \<comment> \<open>indexing a Go map: the zero value (the nil slice) for a missing key\<close>
  "lookupRLEs brles blk = (case map_of brles blk of None \<Rightarrow> [] | Some rles \<Rightarrow> rles)"

definition notify :: "env \<Rightarrow> SyncEvent \<Rightarrow> SyncMessage \<Rightarrow> world \<Rightarrow> string option \<times> world" where
  "notify env evt msg w = (NotifySubscribers env evt msg, w\<lparr>events := events w @ [(evt, msg)]\<rparr>)"

fun putRLEs :: "env \<Rightarrow> label \<Rightarrow> BlockRLEs \<Rightarrow> IZYXString list \<Rightarrow> batchOp list \<Rightarrow> error + batchOp list" where
  \<comment> \<open>the loop that serializes the runs of each block and queues a put, in \<^verbatim>\<open>MergeLabels\<close>
      (over \<^verbatim>\<open>blocksChanged\<close>) and in \<^verbatim>\<open>writeLabelVol\<close> (over \<^verbatim>\<open>blks\<close>)\<close>
  "putRLEs env lbl brles [] batch = Inr batch"
| "putRLEs env lbl brles (blockStr # rest) batch =
     (case MarshalBinary env (lookupRLEs brles blockStr) of
        Inl e \<Rightarrow> Inl (Error (''Error serializing RLEs for label: '' @ e))
      | Inr serialization \<Rightarrow>
          putRLEs env lbl brles rest (batch @ [Put (NewIndex env lbl blockStr) serialization]))"

subsection \<open>\<^verbatim>\<open>MergeLabels\<close>\<close>

record mergeState =
  blocksChanged :: "IZYXString list"
  toLabelRLEs :: BlockRLEs
  addedVoxels :: "64 word"

definition mergeBlock :: "env \<Rightarrow> IZYXString \<times> RLEs \<Rightarrow> IZYXString list \<times> BlockRLEs \<Rightarrow> IZYXString list \<times> BlockRLEs" where
  \<comment> \<open>the body of \<^verbatim>\<open>for blockStr, fromRLEs := range fromLabelRLEs\<close>\<close>
  "mergeBlock env kv acc =
     (case (kv, acc) of ((blockStr, fromRLEs), (changed, toRLEsMap)) \<Rightarrow>
        (List.insert blockStr changed,
         AList.update blockStr
           (case map_of toRLEsMap blockStr of
              Some toRLEs \<Rightarrow> RLEs_Add env toRLEs fromRLEs
            | None \<Rightarrow> fromRLEs)
           toRLEsMap))"

fun mergeLoop :: "env \<Rightarrow> Data \<Rightarrow> VersionID \<Rightarrow> label list \<Rightarrow> mergeState \<Rightarrow> world \<Rightarrow> (error + mergeState) \<times> world" where
  \<comment> \<open>\<^verbatim>\<open>for fromLabel := range m.Merged\<close>\<close>
  "mergeLoop env d v [] st w = (Inr st, w)"
| "mergeLoop env d v (fromLabel # rest) st w =
     (case GetLabelRLEs env (store w) v fromLabel of
        Inl e \<Rightarrow> (Inl (Error (''Can not get block-level RLEs for label: '' @ e)), w)
      | Inr fromLabelRLEs \<Rightarrow>
          (let fromLabelSize = NumVoxels fromLabelRLEs;
               st1 = st\<lparr>addedVoxels := addedVoxels st + fromLabelSize\<rparr>
           in case notify env (DataName d, ChangeSizeEvent) (v, DeltaDeleteSize fromLabel fromLabelSize True) w of
                (Some e, w1) \<Rightarrow> (Inl (Error e), w1)
              | (None, w1) \<Rightarrow>
                  (case fold (mergeBlock env) fromLabelRLEs (blocksChanged st1, toLabelRLEs st1) of
                     (changed, toRLEsMap) \<Rightarrow>
                       (case DeleteRange env (store w1)
                               (NewIndex env fromLabel (IndexZYX_Bytes env (MinIndexZYX env)))
                               (NewIndex env fromLabel (IndexZYX_Bytes env (MaxIndexZYX env))) of
                          Inl e \<Rightarrow> (Inl (Error (''Can not delete label RLEs: '' @ e)), w1)
                        | Inr s \<Rightarrow>
                            mergeLoop env d v rest
                              (st1\<lparr>blocksChanged := changed, toLabelRLEs := toRLEsMap\<rparr>)
                              (w1\<lparr>store := s\<rparr>)))))"

definition MergeLabels_commit ::
  "env \<Rightarrow> Data \<Rightarrow> VersionID \<Rightarrow> MergeOp \<Rightarrow> 64 word \<Rightarrow> 64 word \<Rightarrow> batchOp list \<Rightarrow> world \<Rightarrow> error option \<times> world" where
  \<comment> \<open>from \<^verbatim>\<open>batch.Commit()\<close> to the end of the function\<close>
  "MergeLabels_commit env d v m toLabelSize added batch w =
     (let w1 = (case Commit env batch (store w) of
                  Inl e \<Rightarrow> w\<lparr>errlog := errlog w @ [''Error on updating RLEs for label: '' @ e]\<rparr>
                | Inr s \<Rightarrow> w\<lparr>store := s\<rparr>)
      in case notify env (DataName d, ChangeSizeEvent)
                (v, DeltaReplaceSize (Target m) toLabelSize (toLabelSize + added)) w1 of
           (Some e, w2) \<Rightarrow> (Some (Error e), w2)
         | (None, w2) \<Rightarrow>
             (case notify env (DataName d, MergeEndEvent) (v, DeltaMergeEnd m) w2 of
                (Some e, w3) \<Rightarrow> (Some (Error e), w3)
              | (None, w3) \<Rightarrow> (None, w3)))"

definition MergeLabels_body :: "env \<Rightarrow> Data \<Rightarrow> VersionID \<Rightarrow> MergeOp \<Rightarrow> world \<Rightarrow> error option \<times> world" where
  \<comment> \<open>the function after its \<^verbatim>\<open>defer\<close> statement\<close>
  "MergeLabels_body env d v m w =
     (case GetLabelRLEs env (store w) v (Target m) of
        Inl e \<Rightarrow> (Some (Error (''Can not get block-level RLEs for label: '' @ e)), w)
      | Inr toRLEsMap \<Rightarrow>
          (let toLabelSize = NumVoxels toRLEsMap
           in case mergeLoop env d v (Merged m)
                     \<lparr>blocksChanged = [], toLabelRLEs = toRLEsMap, addedVoxels = 0\<rparr> w of
                (Inl err, w1) \<Rightarrow> (Some err, w1)
              | (Inr st, w1) \<Rightarrow>
                  (case notify env (DataName d, MergeBlockEvent) (v, DeltaMerge m (blocksChanged st)) w1 of
                     (Some e, w2) \<Rightarrow> (Some (Error e), w2)
                   | (None, w2) \<Rightarrow>
                       (case putRLEs env (Target m) (toLabelRLEs st) (blocksChanged st) [] of
                          Inl err \<Rightarrow> (Some err, w2)
                        | Inr batch \<Rightarrow>
                            MergeLabels_commit env d v m toLabelSize (addedVoxels st) batch w2))))"

definition MergeLabels :: "env \<Rightarrow> Data \<Rightarrow> VersionID \<Rightarrow> MergeOp \<Rightarrow> world \<Rightarrow> error option \<times> world" where
  \<comment> \<open>the result is the returned \<^verbatim>\<open>error\<close>, \<open>None\<close> for nil; the deferred
      \<^verbatim>\<open>RemoveMerge\<close> runs on every way out of the body\<close>
  "MergeLabels env d v m w =
     (case SmallDataStore_err env of
        Some e \<Rightarrow> (Some (Error (''Data type labelvol had error initializing store: '' @ e)), w)
      | None \<Rightarrow>
          if KeyValueBatcher env then
            (case notify env (DataName d, MergeStartEvent) (v, DeltaMergeStart m) w of
               (Some e, w1) \<Rightarrow> (Some (Error e), w1)
             | (None, w1) \<Rightarrow>
                 (case MergeLabels_body env d v m
                         (w1\<lparr>dirtyLabels := AddMerge (dirtyLabels w1) (DataName d, v) m\<rparr>) of
                    (r, w2) \<Rightarrow> (r, w2\<lparr>dirtyLabels := RemoveMerge (dirtyLabels w2) (DataName d, v) m\<rparr>)))
          else (Some (Error ''Data type labelvol requires batch-enabled store''), w))"

subsection \<open>\<^verbatim>\<open>writeLabelVol\<close> and \<^verbatim>\<open>SplitLabels\<close>\<close>

definition writeLabelVol :: "env \<Rightarrow> VersionID \<Rightarrow> label \<Rightarrow> IZYXString list \<Rightarrow> BlockRLEs \<Rightarrow> world \<Rightarrow> error option \<times> world" where
  "writeLabelVol env v lbl blks brles w =
     (case SmallDataStore_err env of
        Some e \<Rightarrow> (Some (Error (''Data type labelvol had error initializing store: '' @ e)), w)
      | None \<Rightarrow>
          if KeyValueBatcher env then
            (case putRLEs env lbl brles blks [] of
               Inl err \<Rightarrow> (Some err, w)
             | Inr batch \<Rightarrow>
                 (case Commit env batch (store w) of
                    Inl e \<Rightarrow> (Some (Error (''Error on updating RLEs for label: '' @ e)), w)
                  | Inr s \<Rightarrow> (None, w\<lparr>store := s\<rparr>)))
          else (Some (Error ''Data type labelvol requires batch-enabled store''), w))"

definition ReadFull :: "bytes \<Rightarrow> nat \<Rightarrow> string + (bytes \<times> bytes)" where
  \<comment> \<open>\<^verbatim>\<open>io.ReadFull\<close> on a reader that holds the bytes \<open>r\<close>: the \<open>n\<close> bytes read and the
      bytes left, or the end-of-file error\<close>
  "ReadFull r n =
     (if length r < n then Inl (if r = [] then ''EOF'' else ''unexpected EOF'')
      else Inr (take n r, drop n r))"

definition LittleEndian_Uint32 :: "bytes \<Rightarrow> 32 word" where
  "LittleEndian_Uint32 bs = foldr (\<lambda>b acc. ucast b + 256 * acc) bs 0"

definition setZ :: "Point3d \<Rightarrow> int \<Rightarrow> Point3d" where
  \<comment> \<open>\<^verbatim>\<open>p[2] = z\<close> on a copy of the array\<close>
  "setZ p z = (case p of (x, y, z0) \<Rightarrow> (x, y, z))"

definition chunkProc ::
  "env \<Rightarrow> label \<Rightarrow> BlockRLEs \<Rightarrow> IZYXString list \<Rightarrow> nat \<times> batchOp list \<Rightarrow> key \<times> bytes \<Rightarrow> error + (nat \<times> batchOp list)" where
  \<comment> \<open>the callback \<^verbatim>\<open>f\<close>, on the variables it closes over and changes, \<^verbatim>\<open>pos\<close> and
      \<^verbatim>\<open>batch\<close>.  The index expression \<^verbatim>\<open>splitblks[pos]\<close> is evaluated before the test
      \<^verbatim>\<open>pos >= len(splitblks)\<close>.\<close>
  "chunkProc env fromLabel splitmap splitblks s chunk =
     (case (s, chunk) of ((pos, batch), (K, V)) \<Rightarrow>
        (case DecodeKey env K of
           Inl e \<Rightarrow> Inl (Error (''Error decoding sparse volume key: '' @ e))
         | Inr (lbl, origblk) \<Rightarrow>
             if pos < length splitblks then
               (let splitblk = splitblks ! pos
                in if origblk < splitblk \<or> pos \<ge> length splitblks then Inr (pos, batch)
                   else if origblk = splitblk then
                     (case UnmarshalBinary env V of
                        Inl e \<Rightarrow> Inl (Error ''Unable to unmarshal RLE for label in block'')
                      | Inr rles \<Rightarrow>
                          (case diffBlock (lookupRLEs splitmap splitblk) rles of
                             Inl err \<Rightarrow> Inl err
                           | Inr (modified, dup) \<Rightarrow>
                               (let ibytes = NewIndex env fromLabel origblk
                                in if dup then Inr (pos, batch @ [Delete ibytes])
                                   else (case MarshalBinary env modified of
                                           Inl e \<Rightarrow> Inl (Error (''can not serialize modified RLEs for split: '' @ e))
                                         | Inr rleBytes \<Rightarrow> Inr (pos, batch @ [Put ibytes rleBytes])))))
                   else Inr (pos + 1, batch))
             else Inl (Panic ''index out of range'')))"

definition SplitLabels_commit ::
  "env \<Rightarrow> Data \<Rightarrow> VersionID \<Rightarrow> label \<Rightarrow> label \<Rightarrow> 64 word \<Rightarrow> batchOp list \<Rightarrow> world \<Rightarrow> (label \<times> error option) \<times> world" where
  \<comment> \<open>from \<^verbatim>\<open>batch.Commit()\<close> to the end of the function\<close>
  "SplitLabels_commit env d v fromLabel toLabel toLabelSize batch w =
     (let w1 = (case Commit env batch (store w) of
                  Inl e \<Rightarrow> w\<lparr>errlog := errlog w @ [''Batch PUT during split of label: '' @ e]\<rparr>
                | Inr s \<Rightarrow> w\<lparr>store := s\<rparr>)
      in case notify env (DataName d, ChangeSizeEvent) (v, DeltaNewSize toLabel toLabelSize) w1 of
           (Some e, w2) \<Rightarrow> ((0, Some (Error e)), w2)
         | (None, w2) \<Rightarrow>
             (case notify env (DataName d, ChangeSizeEvent) (v, DeltaModSize fromLabel (- toLabelSize)) w2 of
                (Some e, w3) \<Rightarrow> ((0, Some (Error e)), w3)
              | (None, w3) \<Rightarrow>
                  (case notify env (DataName d, SplitEndEvent) (v, DeltaSplitEnd fromLabel toLabel) w3 of
                     (Some e, w4) \<Rightarrow> ((0, Some (Error e)), w4)
                   | (None, w4) \<Rightarrow> ((toLabel, None), w4))))"

definition SplitLabels_scan ::
  "env \<Rightarrow> Data \<Rightarrow> VersionID \<Rightarrow> label \<Rightarrow> label \<Rightarrow> 64 word \<Rightarrow> BlockRLEs \<Rightarrow> IZYXString list \<Rightarrow> world \<Rightarrow> (label \<times> error option) \<times> world" where
  \<comment> \<open>from ``Restrict original block scan to split Z range'' to the end; a panic has no
      returned label, written 0 here\<close>
  "SplitLabels_scan env d v fromLabel toLabel toLabelSize splitmap splitblks w =
     (if 0 < length splitblks then
        (case IZYXString_Z env (splitblks ! 0) of
           Inl e \<Rightarrow> ((toLabel, Some (Error e)), w)
         | Inr zmin \<Rightarrow>
             (case IZYXString_Z env (splitblks ! (length splitblks - 1)) of
                Inl e \<Rightarrow> ((toLabel, Some (Error e)), w)
              | Inr zmax \<Rightarrow>
                  (let begIndex = NewIndex env fromLabel (IndexZYX_Bytes env (setZ (MinIndexZYX env) zmin));
                       endIndex = NewIndex env fromLabel (IndexZYX_Bytes env (setZ (MaxIndexZYX env) zmax))
                   in case ProcessRange env (store w) begIndex endIndex
                             (chunkProc env fromLabel splitmap splitblks) (0, []) of
                        Inl (Error e) \<Rightarrow> ((toLabel, Some (Error e)), w)
                      | Inl (Panic e) \<Rightarrow> ((0, Some (Panic e)), w)
                      | Inr (pos, batch) \<Rightarrow>
                          SplitLabels_commit env d v fromLabel toLabel toLabelSize batch w)))
      else ((0, Some (Panic ''index out of range'')), w))"

definition SplitLabels_body ::
  "env \<Rightarrow> Data \<Rightarrow> VersionID \<Rightarrow> label \<Rightarrow> bytes \<Rightarrow> world \<Rightarrow> (label \<times> error option) \<times> world" where
  \<comment> \<open>the function after its \<^verbatim>\<open>defer\<close> statement; \<open>r\<close> holds the bytes of the reader\<close>
  "SplitLabels_body env d v fromLabel r w =
     (case NewLabel env v of
        (toLabel, Some e) \<Rightarrow> ((toLabel, Some (Error e)), w)
      | (toLabel, None) \<Rightarrow>
     (case notify env (DataName d, SplitStartEvent) (v, DeltaSplitStart fromLabel toLabel) w of
        (Some e, w1) \<Rightarrow> ((0, Some (Error e)), w1)
      | (None, w1) \<Rightarrow>
     (case ReadFull r 12 of
        Inl e \<Rightarrow> ((toLabel, Some (Error e)), w1)
      | Inr (header, r1) \<Rightarrow>
     if header ! 0 = EncodingBinary env then
     (case ReadFull r1 4 of
        Inl e \<Rightarrow> ((toLabel, Some (Error e)), w1)
      | Inr (nbytes, r2) \<Rightarrow>
     (case UnmarshalBinaryReader env r2 (LittleEndian_Uint32 nbytes) of
        Inl e \<Rightarrow> ((toLabel, Some (Error e)), w1)
      | Inr split \<Rightarrow>
     (let toLabelSize = fst (Stats split)
      in case Partition env split (BlockSize d) of
        Inl e \<Rightarrow> ((toLabel, Some (Error e)), w1)
      | Inr splitmap \<Rightarrow>
     (let splitblks = SortedKeys splitmap
      in case notify env (DataName d, SplitLabelEvent) (v, DeltaSplit fromLabel toLabel splitmap splitblks) w1 of
        (Some e, w2) \<Rightarrow> ((0, Some (Error e)), w2)
      | (None, w2) \<Rightarrow>
     (case writeLabelVol env v toLabel splitblks splitmap w2 of
        (Some err, w3) \<Rightarrow> ((toLabel, Some err), w3)
      | (None, w3) \<Rightarrow>
          SplitLabels_scan env d v fromLabel toLabel toLabelSize splitmap splitblks w3)))))
     else ((toLabel, Some (Error ''sparse vol for split has unknown encoding format'')), w1))))"

definition SplitLabels ::
  "env \<Rightarrow> Data \<Rightarrow> VersionID \<Rightarrow> label \<Rightarrow> bytes \<Rightarrow> world \<Rightarrow> (label \<times> error option) \<times> world" where
  \<comment> \<open>the result is the returned pair \<^verbatim>\<open>(toLabel, err)\<close>; the deferred \<^verbatim>\<open>Decr\<close> runs on
      every way out of the body, a panic included\<close>
  "SplitLabels env d v fromLabel r w =
     (case SmallDataStore_err env of
        Some e \<Rightarrow> ((0, Some (Error (''Data type labelvol had error initializing store: '' @ e))), w)
      | None \<Rightarrow>
          if KeyValueBatcher env then
            (case SplitLabels_body env d v fromLabel r
                    (w\<lparr>dirtyLabels := Incr (dirtyLabels w) (DataName d, v) fromLabel\<rparr>) of
               (res, w1) \<Rightarrow> (res, w1\<lparr>dirtyLabels := Decr (dirtyLabels w1) (DataName d, v) fromLabel\<rparr>))
          else ((0, Some (Error ''Data type labelvol requires batch-enabled store'')), w))"

subsection \<open>Reading the published notifications\<close>

definition newEvents :: "world \<Rightarrow> world \<Rightarrow> (SyncEvent \<times> SyncMessage) list" where
  \<comment> \<open>the notifications published between the state \<open>w\<close> and the later state \<open>w'\<close>\<close>
  "newEvents w w' = drop (length (events w)) (events w')"

definition kindOf :: "SyncEvent \<times> SyncMessage \<Rightarrow> EventKind" where
  "kindOf n = snd (fst n)"

definition deltaOf :: "SyncEvent \<times> SyncMessage \<Rightarrow> Delta" where
  "deltaOf n = snd (snd n)"

definition DeleteSizeMsg :: "Data \<Rightarrow> VersionID \<Rightarrow> label \<Rightarrow> 64 word \<Rightarrow> SyncEvent \<times> SyncMessage" where
  \<comment> \<open>the notification of the loop over \<^verbatim>\<open>m.Merged\<close>\<close>
  "DeleteSizeMsg d v l sz = ((DataName d, ChangeSizeEvent), (v, DeltaDeleteSize l sz True))"

definition ReplaceSizeMsg :: "Data \<Rightarrow> VersionID \<Rightarrow> MergeOp \<Rightarrow> 64 word \<Rightarrow> 64 word \<Rightarrow> SyncEvent \<times> SyncMessage" where
  "ReplaceSizeMsg d v m oldSize added =
     ((DataName d, ChangeSizeEvent), (v, DeltaReplaceSize (Target m) oldSize (oldSize + added)))"

definition MergeEndMsg :: "Data \<Rightarrow> VersionID \<Rightarrow> MergeOp \<Rightarrow> SyncEvent \<times> SyncMessage" where
  "MergeEndMsg d v m = ((DataName d, MergeEndEvent), (v, DeltaMergeEnd m))"

definition MergeBlockMsg :: "Data \<Rightarrow> VersionID \<Rightarrow> MergeOp \<Rightarrow> IZYXString list \<Rightarrow> SyncEvent \<times> SyncMessage" where
  "MergeBlockMsg d v m changed = ((DataName d, MergeBlockEvent), (v, DeltaMerge m changed))"

definition MergeStartMsg :: "Data \<Rightarrow> VersionID \<Rightarrow> MergeOp \<Rightarrow> SyncEvent \<times> SyncMessage" where
  "MergeStartMsg d v m = ((DataName d, MergeStartEvent), (v, DeltaMergeStart m))"

definition rangeOf :: "env \<Rightarrow> label \<Rightarrow> key \<times> key" where
  \<comment> \<open>the key range of a label: \<^verbatim>\<open>NewIndex(label, dvid.MinIndexZYX.Bytes())\<close> to
      \<^verbatim>\<open>NewIndex(label, dvid.MaxIndexZYX.Bytes())\<close>\<close>
  "rangeOf env l =
     (NewIndex env l (IndexZYX_Bytes env (MinIndexZYX env)),
      NewIndex env l (IndexZYX_Bytes env (MaxIndexZYX env)))"

fun mergedSizes :: "env \<Rightarrow> VersionID \<Rightarrow> label list \<Rightarrow> store \<Rightarrow> 64 word list" where
  \<comment> \<open>the voxel counts of the merged labels in the store of the call: each label is read
      from the store as it is once the key ranges of the labels before it are deleted
      (the list ends where a read or a delete fails)\<close>
  "mergedSizes env v [] st = []"
| "mergedSizes env v (l # ls) st =
     (case GetLabelRLEs env st v l of
        Inl e \<Rightarrow> []
      | Inr rles \<Rightarrow>
          NumVoxels rles #
          (case DeleteRange env st (fst (rangeOf env l)) (snd (rangeOf env l)) of
             Inl e \<Rightarrow> []
           | Inr st' \<Rightarrow> mergedSizes env v ls st'))"

subsection \<open>A sample environment\<close>

text \<open>
  A small concrete instance of the collaborators, for running the functions: a key is
  one byte of label followed by the block coordinate, a block coordinate is the three
  bytes z, y, x, a run is serialized as the four bytes x, y, z, length, every run lies in
  block (0, 0, 0), and no call fails.
\<close>

fun sampleUnmarshal :: "bytes \<Rightarrow> string + RLEs" where
  "sampleUnmarshal [] = Inr []"
| "sampleUnmarshal (x # y # z # n # rest) =
     (case sampleUnmarshal rest of
        Inl e \<Rightarrow> Inl e
      | Inr rles \<Rightarrow> Inr (\<lparr>start = (uint x, uint y, uint z), length_RLE = uint n\<rparr> # rles))"
| "sampleUnmarshal bs = Inl ''truncated runs''"

definition sampleMarshal :: "RLEs \<Rightarrow> bytes" where
  "sampleMarshal rles =
     concat (map (\<lambda>rle. case start rle of (x, y, z) \<Rightarrow>
                    [word_of_int x, word_of_int y, word_of_int z, word_of_int (length_RLE rle)]) rles)"

definition sampleDecodeKey :: "key \<Rightarrow> string + (label \<times> bytes)" where
  "sampleDecodeKey k = (case k of [] \<Rightarrow> Inl ''empty key'' | b # blk \<Rightarrow> Inr (ucast b, blk))"

definition sampleGetLabelRLEs :: "store \<Rightarrow> VersionID \<Rightarrow> label \<Rightarrow> string + BlockRLEs" where
  "sampleGetLabelRLEs st v l =
     Inr (List.map_filter
            (\<lambda>(k, val). case (sampleDecodeKey k, sampleUnmarshal val) of
                           (Inr (l', blk), Inr rles) \<Rightarrow> if l' = l then Some (blk, rles) else None
                         | _ \<Rightarrow> None) st)"

definition sampleEnv :: env where
  "sampleEnv =
     \<lparr>SmallDataStore_err = None,
      KeyValueBatcher = True,
      NotifySubscribers = (\<lambda>evt msg. None),
      GetLabelRLEs = sampleGetLabelRLEs,
      RLEs_Add = (\<lambda>toRLEs fromRLEs. sort_Sort (toRLEs @ fromRLEs)),
      NewIndex = (\<lambda>l blk. ucast l # blk),
      DecodeKey = sampleDecodeKey,
      MinIndexZYX = (0, 0, 0),
      MaxIndexZYX = (255, 255, 255),
      IndexZYX_Bytes = (\<lambda>(x, y, z). [word_of_int z, word_of_int y, word_of_int x]),
      IZYXString_Z = (\<lambda>blk. case blk of [] \<Rightarrow> Inl ''short block coordinate'' | z # yx \<Rightarrow> Inr (uint z)),
      DeleteRange_err = (\<lambda>kmin kmax. None),
      ProcessRange_err = (\<lambda>begKey endKey. None),
      Commit_err = (\<lambda>batch. None),
      MarshalBinary = (\<lambda>rles. Inr (sampleMarshal rles)),
      UnmarshalBinary = sampleUnmarshal,
      NewLabel = (\<lambda>v. (9, None)),
      EncodingBinary = 0,
      UnmarshalBinaryReader = (\<lambda>r n. sampleUnmarshal (take (4 * unat n) r)),
      Partition = (\<lambda>rles blockSize. Inr (if rles = [] then [] else [([0, 0, 0], rles)]))\<rparr>"

definition sampleData :: Data where
  "sampleData = \<lparr>DataName = ''labelvol'', BlockSize = (32, 32, 32)\<rparr>"

definition emptyWorld :: "store \<Rightarrow> world" where
  "emptyWorld st = \<lparr>store = st, dirtyLabels = (\<lambda>k. 0), events = [], errlog = []\<rparr>"

section \<open>Properties\<close>

subsection \<open>Auxiliary facts about \<^verbatim>\<open>diffBlock\<close>\<close>

lemma foldl_snoc: "foldl (\<lambda>l' rle. l' @ [rle]) acc xs = acc @ xs"
  by (induction xs arbitrary: acc) auto

lemma insertRLE_not_Nil: "insertRLE r xs \<noteq> []"
  by (cases xs) auto

lemma sort_Sort_not_Nil: "xs \<noteq> [] \<Longrightarrow> sort_Sort xs \<noteq> []"
  by (cases xs) (auto simp: sort_Sort_def insertRLE_not_Nil)

lemma diffLoop_Front: "l \<noteq> [] \<Longrightarrow> srles \<noteq> [] \<Longrightarrow> \<exists>e. diffLoop srles l (Front l) 0 = Inl e"
  by (simp add: Front_def Prev_def split: option.splits)

text \<open>
  The loop starts at the front element.  Either no split run intersects it, and the
  function returns the error, or one does, and \<^verbatim>\<open>e.Prev()\<close> of the front element is nil, so
  that \<^verbatim>\<open>e.Next()\<close> dereferences nil.  With both lists non-empty \<^verbatim>\<open>diffBlock\<close> therefore
  never returns a result.
\<close>

lemma diffBlock_no_result: "split \<noteq> [] \<Longrightarrow> orig \<noteq> [] \<Longrightarrow> \<exists>e. diffBlock split orig = Inl e"
  using diffLoop_Front[of "sort_Sort orig" "sort_Sort split"]
  by (auto simp: diffBlock_def foldl_snoc sort_Sort_not_Nil Let_def)

lemma foldl_upd_last:
  "foldl (\<lambda>h' rle. h'[length g := (h' ! length g)[0 := rle]]) (g @ [x]) l'
     = g @ [foldl (\<lambda>m rle. m[0 := rle]) x l']"
  by (induction l' arbitrary: x) simp_all

lemma make_copy:
  "src < length h \<Longrightarrow>
   copy_RLEs (fst (make_RLEs h (length (h ! src)))) (snd (make_RLEs h (length (h ! src)))) src = h @ [h ! src]"
  by (simp add: make_RLEs_def copy_RLEs_def nth_append)

text \<open>The heap after the two copies and the two sorts, and what the call returns.\<close>

lemma diffBlock_heap_unfold:
  assumes "split < length h" "orig < length h"
  shows "diffBlock_heap h split orig =
     (let h6 = h @ [sort_Sort (h ! split), sort_Sort (h ! orig)];
          l = sort_Sort (h ! orig)
      in case diffLoop (sort_Sort (h ! split)) l (Front l) 0 of
           Inl err \<Rightarrow> (h6, Inl err)
         | Inr l' \<Rightarrow>
             if length l' = 0 then (h6, Inr (None, True))
             else (h6 @ [foldl (\<lambda>m rle. m[0 := rle]) (replicate (length l') zeroRLE) l'],
                   Inr (Some (length h6), False)))"
proof -
  let ?h2 = "h @ [h ! split]"
  let ?h4 = "?h2 @ [h ! orig]"
  let ?h6 = "h @ [sort_Sort (h ! split), sort_Sort (h ! orig)]"
  have m1: "make_RLEs h (length (h ! split)) = (h @ [replicate (length (h ! split)) zeroRLE], length h)"
    by (simp add: make_RLEs_def)
  have c1: "copy_RLEs (h @ [replicate (length (h ! split)) zeroRLE]) (length h) split = ?h2"
    using make_copy[OF assms(1)] by (simp add: make_RLEs_def)
  have o: "orig < length ?h2" using assms(2) by simp
  have n2: "?h2 ! orig = h ! orig" using assms(2) by (simp add: nth_append)
  have m2: "make_RLEs ?h2 (length (h ! orig)) = (?h2 @ [replicate (length (h ! orig)) zeroRLE], length ?h2)"
    by (simp add: make_RLEs_def)
  have c2: "copy_RLEs (?h2 @ [replicate (length (h ! orig)) zeroRLE]) (length ?h2) orig = ?h4"
    using make_copy[OF o] by (simp add: make_RLEs_def n2)
  have s: "sort_Sort_heap (sort_Sort_heap ?h4 (length h)) (length ?h2) = ?h6"
    by (simp add: sort_Sort_heap_def nth_append list_update_append)
  have n6: "?h6 ! length h = sort_Sort (h ! split)" "?h6 ! length ?h2 = sort_Sort (h ! orig)"
    by (simp_all add: nth_append)
  have m: "\<And>l'. foldl (\<lambda>h' rle. h'[length ?h6 := (h' ! length ?h6)[0 := rle]]) (?h6 @ [replicate (length l') zeroRLE]) l'
        = ?h6 @ [foldl (\<lambda>m rle. m[0 := rle]) (replicate (length l') zeroRLE) l']"
    by (rule foldl_upd_last)
  have m6: "\<And>n. make_RLEs ?h6 n = (?h6 @ [replicate n zeroRLE], length ?h6)"
    by (simp add: make_RLEs_def)
  show ?thesis
    unfolding diffBlock_heap_def
    by (simp only: m1 prod.case Let_def c1 n2 m2 c2 s n6 foldl_snoc append_Nil m6 m)
qed

text \<open>The call on slices computes what \<open>diffBlock\<close> computes on the runs they hold.\<close>

lemma diffBlock_heap_result:
  assumes "split < length h" "orig < length h"
  shows "(case diffBlock_heap h split orig of
            (h', Inl err) \<Rightarrow> diffBlock (h ! split) (h ! orig) = Inl err
          | (h', Inr (None, dup)) \<Rightarrow> diffBlock (h ! split) (h ! orig) = Inr ([], dup)
          | (h', Inr (Some a, dup)) \<Rightarrow> diffBlock (h ! split) (h ! orig) = Inr (h' ! a, dup))"
  by (simp add: diffBlock_heap_unfold[OF assms] diffBlock_def foldl_snoc Let_def nth_append
           split: sum.splits)

subsection \<open>Claims about \<^verbatim>\<open>diffBlock\<close>\<close>

text \<open>
  C1.  The claim: when the voxels of \<^verbatim>\<open>split\<close> are a true subset of those of \<^verbatim>\<open>orig\<close>,
  \<^verbatim>\<open>diffBlock\<close> returns sorted, non-overlapping remaining runs with
  \<open>numVoxels orig - numVoxels split\<close> voxels, and when \<^verbatim>\<open>split\<close> covers exactly
  \<^verbatim>\<open>orig\<close> it returns \<^verbatim>\<open>dup = true\<close> with no remaining runs.  The code does neither.
  Subtracting the run [2, 5) from the run [0, 10) should leave [0, 2) and [5, 10), 7
  voxels; the call panics.  Subtracting [0, 10) from itself should report a duplicate;
  the call panics too.  In both the intersected element is the front of the list, its
  \<^verbatim>\<open>Prev()\<close> is nil, and the loop's \<^verbatim>\<open>e = e.Next()\<close> dereferences it.
\<close>

theorem diffBlock_subset_panics:
  "diffBlock [\<lparr>start = (2, 0, 0), length_RLE = 3\<rparr>] [\<lparr>start = (0, 0, 0), length_RLE = 10\<rparr>]
     = Inl (Panic ''nil pointer dereference'') \<and>
   numVoxels [\<lparr>start = (0, 0, 0), length_RLE = 10\<rparr>] - numVoxels [\<lparr>start = (2, 0, 0), length_RLE = 3\<rparr>] = 7 \<and>
   diffBlock [\<lparr>start = (0, 0, 0), length_RLE = 10\<rparr>] [\<lparr>start = (0, 0, 0), length_RLE = 10\<rparr>]
     = Inl (Panic ''nil pointer dereference'')"
  by (simp add: diffBlock_def sort_Sort_def Front_def Prev_def Excise_def InsertAfter_def
        Remove_def numVoxels_def)

text \<open>
  C4.  The claim: \<^verbatim>\<open>diffBlock\<close> returns the error exactly when some split run intersects
  no remaining original run.  The code tests the opposite inclusion: it returns the error
  when the original run under the cursor is met by no split run from \<^verbatim>\<open>si\<close> on.  So a
  split run [10, 12) that lies inside the second original run of [0, 5), [10, 15) gives the
  error, because the first original run is not touched by the split; and a split run
  against an empty original list, which intersects nothing, gives no error but
  \<^verbatim>\<open>dup = true\<close>, because the loop is not entered.
\<close>

theorem diffBlock_error_on_contained_split:
  "diffBlock [\<lparr>start = (10, 0, 0), length_RLE = 2\<rparr>]
             [\<lparr>start = (0, 0, 0), length_RLE = 5\<rparr>, \<lparr>start = (10, 0, 0), length_RLE = 5\<rparr>]
     = Inl (Error ''split is not contained within single label'') \<and>
   Excise \<lparr>start = (10, 0, 0), length_RLE = 5\<rparr> \<lparr>start = (10, 0, 0), length_RLE = 2\<rparr>
     = Some [\<lparr>start = (12, 0, 0), length_RLE = 3\<rparr>] \<and>
   diffBlock [\<lparr>start = (10, 0, 0), length_RLE = 2\<rparr>] [] = Inr ([], True)"
  by (simp add: diffBlock_def sort_Sort_def Front_def Prev_def Excise_def Less_def)

text \<open>
  C10.  \<^verbatim>\<open>diffBlock\<close> leaves the arrays behind its two arguments as they were: the
  arrays that were on the heap before the call, among them those of \<^verbatim>\<open>split\<close> and
  \<^verbatim>\<open>orig\<close> (also when both are the same array), hold the same runs in the same order
  after it, and the array returned as \<^verbatim>\<open>modified\<close> is a new one.
\<close>

theorem diffBlock_inputs_unchanged:
  assumes "split < length h" and "orig < length h"
  shows "fst (diffBlock_heap h split orig) ! split = h ! split \<and>
         fst (diffBlock_heap h split orig) ! orig = h ! orig \<and>
         take (length h) (fst (diffBlock_heap h split orig)) = h \<and>
         (\<forall>a dup. snd (diffBlock_heap h split orig) = Inr (Some a, dup) \<longrightarrow> length h \<le> a)"
  using assms
  by (auto simp: diffBlock_heap_unfold[OF assms] Let_def nth_append split: sum.splits)

theorem diffBlock_inputs_unchanged_witness:
  "fst (diffBlock_heap [[], [\<lparr>start = (7, 0, 0), length_RLE = 1\<rparr>, \<lparr>start = (2, 0, 0), length_RLE = 1\<rparr>]] 0 1) ! 1
     = [\<lparr>start = (7, 0, 0), length_RLE = 1\<rparr>, \<lparr>start = (2, 0, 0), length_RLE = 1\<rparr>] \<and>
   fst (diffBlock_heap [[], [\<lparr>start = (7, 0, 0), length_RLE = 1\<rparr>, \<lparr>start = (2, 0, 0), length_RLE = 1\<rparr>]] 0 1) ! 0 = [] \<and>
   snd (diffBlock_heap [[], [\<lparr>start = (7, 0, 0), length_RLE = 1\<rparr>, \<lparr>start = (2, 0, 0), length_RLE = 1\<rparr>]] 0 1)
     = Inr (Some 4, False)"
proof -
  let ?h = "[[], [\<lparr>start = (7, 0, 0), length_RLE = 1\<rparr>, \<lparr>start = (2, 0, 0), length_RLE = 1\<rparr>]]"
  have a: "0 < length ?h" and b: "1 < length ?h" by simp_all
  have r: "snd (diffBlock_heap ?h 0 1) = Inr (Some 4, False)"
    using diffBlock_heap_unfold[OF a b] by (simp add: sort_Sort_def Less_def Front_def)
  from diffBlock_inputs_unchanged[OF a b] r show ?thesis by simp
qed

subsection \<open>The dirty registry and the stages of the two functions\<close>

lemma mergeLoop_dirty:
  "dirtyLabels (snd (mergeLoop env d v ls st w)) = dirtyLabels w"
  by (induction ls arbitrary: st w)
     (auto simp: notify_def Let_def split: sum.splits option.splits prod.splits)

lemma MergeLabels_commit_dirty:
  "dirtyLabels (snd (MergeLabels_commit env d v m oldSize added batch w)) = dirtyLabels w"
  by (auto simp: MergeLabels_commit_def notify_def Let_def split: sum.splits option.splits prod.splits)

lemma MergeLabels_body_dirty:
  "dirtyLabels (snd (MergeLabels_body env d v m w)) = dirtyLabels w"
proof -
  have a: "\<And>st w1. mergeLoop env d v (Merged m) st w = (Inr st1, w1) \<Longrightarrow> dirtyLabels w1 = dirtyLabels w" for st1
    using mergeLoop_dirty[of env d v "Merged m" _ w] by (metis snd_conv)
  have b: "\<And>st w1. mergeLoop env d v (Merged m) st w = (Inl e, w1) \<Longrightarrow> dirtyLabels w1 = dirtyLabels w" for e
    using mergeLoop_dirty[of env d v "Merged m" _ w] by (metis snd_conv)
  show ?thesis
    by (auto simp: MergeLabels_body_def notify_def Let_def MergeLabels_commit_dirty
             split: sum.splits option.splits prod.splits dest: a b)
qed

lemma fold_Incr: "fold (\<lambda>l dc'. Incr dc' iv l) ls dc k = dc k + (if fst k = iv then count_list ls (snd k) else 0)"
  by (induction ls arbitrary: dc) (auto simp: Incr_def)

lemma fold_Decr: "fold (\<lambda>l dc'. Decr dc' iv l) ls dc k = dc k - (if fst k = iv then count_list ls (snd k) else 0)"
  by (induction ls arbitrary: dc) (auto simp: Decr_def)

lemma RemoveMerge_AddMerge: "RemoveMerge (AddMerge dc iv m) iv m = dc"
proof (rule ext)
  fix k
  have "RemoveMerge (AddMerge dc iv m) iv m k
          = Decr (fold (\<lambda>l dc'. Incr dc' iv l) (Merged m) (Incr dc iv (Target m))) iv (Target m) k
            - (if fst k = iv then count_list (Merged m) (snd k) else 0)"
    by (simp add: RemoveMerge_def AddMerge_def fold_Decr)
  also have "\<dots> = dc k"
    by (cases k) (simp add: Decr_def fold_Incr, simp add: Incr_def)
  finally show "RemoveMerge (AddMerge dc iv m) iv m k = dc k" .
qed

lemma Decr_Incr: "Decr (Incr dc iv l) iv l = dc"
  by (rule ext) (auto simp: Incr_def Decr_def)

lemma MergeLabels_dirty: "dirtyLabels (snd (MergeLabels env d v m w)) = dirtyLabels w"
proof -
  have "\<And>r w1 w2. MergeLabels_body env d v m w1 = (r, w2) \<Longrightarrow> dirtyLabels w2 = dirtyLabels w1"
    using MergeLabels_body_dirty by (metis snd_conv)
  then show ?thesis
    by (auto simp: MergeLabels_def notify_def RemoveMerge_AddMerge split: option.splits prod.splits)
qed

lemma writeLabelVol_frame:
  "events (snd (writeLabelVol env v lbl blks brles w)) = events w"
  "dirtyLabels (snd (writeLabelVol env v lbl blks brles w)) = dirtyLabels w"
  "errlog (snd (writeLabelVol env v lbl blks brles w)) = errlog w"
  by (auto simp: writeLabelVol_def split: option.splits sum.splits)

lemma SplitLabels_commit_dirty:
  "dirtyLabels (snd (SplitLabels_commit env d v fromLabel toLabel sz batch w)) = dirtyLabels w"
  by (auto simp: SplitLabels_commit_def notify_def Let_def split: sum.splits option.splits)

lemma SplitLabels_commit_events:
  "events (snd (SplitLabels_commit env d v fromLabel toLabel sz batch w))
     = events w @ newEvents w (snd (SplitLabels_commit env d v fromLabel toLabel sz batch w))"
  "prefix (map kindOf (newEvents w (snd (SplitLabels_commit env d v fromLabel toLabel sz batch w))))
     [ChangeSizeEvent, ChangeSizeEvent, SplitEndEvent]"
  "snd (fst (SplitLabels_commit env d v fromLabel toLabel sz batch w)) = None \<Longrightarrow>
     map kindOf (newEvents w (snd (SplitLabels_commit env d v fromLabel toLabel sz batch w)))
       = [ChangeSizeEvent, ChangeSizeEvent, SplitEndEvent]"
  by (auto simp: SplitLabels_commit_def notify_def Let_def newEvents_def kindOf_def
           split: sum.splits option.splits)

lemma SplitLabels_scan_dirty:
  "dirtyLabels (snd (SplitLabels_scan env d v fromLabel toLabel sz splitmap splitblks w)) = dirtyLabels w"
  by (auto simp: SplitLabels_scan_def Let_def SplitLabels_commit_dirty split: sum.splits error.splits prod.splits)

lemma SplitLabels_scan_events:
  "events (snd (SplitLabels_scan env d v fromLabel toLabel sz splitmap splitblks w))
     = events w @ newEvents w (snd (SplitLabels_scan env d v fromLabel toLabel sz splitmap splitblks w))"
  "prefix (map kindOf (newEvents w (snd (SplitLabels_scan env d v fromLabel toLabel sz splitmap splitblks w))))
     [ChangeSizeEvent, ChangeSizeEvent, SplitEndEvent]"
  "snd (fst (SplitLabels_scan env d v fromLabel toLabel sz splitmap splitblks w)) = None \<Longrightarrow>
     map kindOf (newEvents w (snd (SplitLabels_scan env d v fromLabel toLabel sz splitmap splitblks w)))
       = [ChangeSizeEvent, ChangeSizeEvent, SplitEndEvent]"
proof -
  let ?s = "SplitLabels_scan env d v fromLabel toLabel sz splitmap splitblks w"
  have "(\<exists>batch. ?s = SplitLabels_commit env d v fromLabel toLabel sz batch w) \<or>
        (snd ?s = w \<and> snd (fst ?s) \<noteq> None)"
    by (auto simp: SplitLabels_scan_def Let_def split: sum.splits error.splits prod.splits)
  then consider (commit) batch where "?s = SplitLabels_commit env d v fromLabel toLabel sz batch w"
    | (stop) "snd ?s = w" "snd (fst ?s) \<noteq> None"
    by blast
  then have "events (snd ?s) = events w @ newEvents w (snd ?s) \<and>
     prefix (map kindOf (newEvents w (snd ?s))) [ChangeSizeEvent, ChangeSizeEvent, SplitEndEvent] \<and>
     (snd (fst ?s) = None \<longrightarrow> map kindOf (newEvents w (snd ?s)) = [ChangeSizeEvent, ChangeSizeEvent, SplitEndEvent])"
  proof cases
    case commit
    show ?thesis
      unfolding commit
      by (intro conjI impI SplitLabels_commit_events)
  next
    case stop
    then show ?thesis by (simp add: newEvents_def)
  qed
  then show "events (snd ?s) = events w @ newEvents w (snd ?s)"
    and "prefix (map kindOf (newEvents w (snd ?s))) [ChangeSizeEvent, ChangeSizeEvent, SplitEndEvent]"
    and "snd (fst ?s) = None \<Longrightarrow> map kindOf (newEvents w (snd ?s)) = [ChangeSizeEvent, ChangeSizeEvent, SplitEndEvent]"
    by simp_all
qed

lemma SplitLabels_body_dirty:
  "dirtyLabels (snd (SplitLabels_body env d v fromLabel r w)) = dirtyLabels w"
proof -
  have a: "\<And>a b c e f res w1 w'. SplitLabels_scan env d v fromLabel a b c e w1 = (res, w') \<Longrightarrow> dirtyLabels w' = dirtyLabels w1"
    using SplitLabels_scan_dirty by (metis snd_conv)
  have b: "\<And>a b c res w1 w'. writeLabelVol env v a b c w1 = (res, w') \<Longrightarrow> dirtyLabels w' = dirtyLabels w1"
    using writeLabelVol_frame(2) by (metis snd_conv)
  show ?thesis
    by (auto simp: SplitLabels_body_def notify_def Let_def SplitLabels_scan_dirty writeLabelVol_frame
             split: sum.splits option.splits prod.splits dest!: a b)
qed

lemma SplitLabels_dirty: "dirtyLabels (snd (SplitLabels env d v fromLabel r w)) = dirtyLabels w"
proof -
  have "\<And>res w1 w2. SplitLabels_body env d v fromLabel r w1 = (res, w2) \<Longrightarrow> dirtyLabels w2 = dirtyLabels w1"
    using SplitLabels_body_dirty by (metis snd_conv)
  then show ?thesis
    by (auto simp: SplitLabels_def Decr_Incr split: option.splits prod.splits)
qed

subsection \<open>The notifications a call publishes\<close>

lemma mergeLoop_trace:
  "\<exists>sizes. length sizes \<le> length ls \<and>
     events (snd (mergeLoop env d v ls st w)) = events w @ map2 (DeleteSizeMsg d v) ls sizes \<and>
     (\<forall>st'. fst (mergeLoop env d v ls st w) = Inr st' \<longrightarrow>
        length sizes = length ls \<and> addedVoxels st' = addedVoxels st + sum_list sizes \<and>
        sizes = mergedSizes env v ls (store w))"
proof (induction ls arbitrary: st w)
  case Nil
  show ?case by simp
next
  case (Cons fromLabel rest)
  show ?case
  proof (cases "GetLabelRLEs env (store w) v fromLabel")
    case (Inl e)
    then show ?thesis by (intro exI[of _ "[]"]) simp
  next
    case (Inr rles)
    let ?sz = "NumVoxels rles"
    let ?w1 = "w\<lparr>events := events w @ [DeleteSizeMsg d v fromLabel ?sz]\<rparr>"
    show ?thesis
    proof (cases "NotifySubscribers env (DataName d, ChangeSizeEvent) (v, DeltaDeleteSize fromLabel ?sz True)")
      case (Some e)
      with Inr show ?thesis
        by (intro exI[of _ "[?sz]"]) (simp add: notify_def DeleteSizeMsg_def Let_def)
    next
      case None
      obtain changed toMap where f: "fold (mergeBlock env) rles (blocksChanged st, toLabelRLEs st) = (changed, toMap)"
        by (cases "fold (mergeBlock env) rles (blocksChanged st, toLabelRLEs st)") auto
      show ?thesis
      proof (cases "DeleteRange env (store w)
                               (NewIndex env fromLabel (IndexZYX_Bytes env (MinIndexZYX env)))
                               (NewIndex env fromLabel (IndexZYX_Bytes env (MaxIndexZYX env)))")
        case (Inl e)
        with Inr None f show ?thesis
          by (intro exI[of _ "[?sz]"]) (simp add: notify_def DeleteSizeMsg_def Let_def)
      next
        case (Inr s)
        let ?st2 = "st\<lparr>addedVoxels := addedVoxels st + ?sz, blocksChanged := changed, toLabelRLEs := toMap\<rparr>"
        let ?w2 = "?w1\<lparr>store := s\<rparr>"
        from Cons.IH[of ?st2 ?w2] obtain sizes where
          IH: "length sizes \<le> length rest"
              "events (snd (mergeLoop env d v rest ?st2 ?w2)) = events ?w2 @ map2 (DeleteSizeMsg d v) rest sizes"
              "\<forall>st'. fst (mergeLoop env d v rest ?st2 ?w2) = Inr st' \<longrightarrow>
                 length sizes = length rest \<and> addedVoxels st' = addedVoxels ?st2 + sum_list sizes \<and>
                 sizes = mergedSizes env v rest (store ?w2)"
          by blast
        have step: "mergeLoop env d v (fromLabel # rest) st w = mergeLoop env d v rest ?st2 ?w2"
          using \<open>GetLabelRLEs env (store w) v fromLabel = Inr rles\<close> None f Inr
          by (simp add: notify_def DeleteSizeMsg_def Let_def)
        let ?r = "mergeLoop env d v rest ?st2 ?w2"
        have ms: "mergedSizes env v (fromLabel # rest) (store w) = ?sz # mergedSizes env v rest s"
          using \<open>GetLabelRLEs env (store w) v fromLabel = Inr rles\<close> Inr
          by (simp add: rangeOf_def)
        have A: "length (?sz # sizes) \<le> length (fromLabel # rest)"
          using IH(1) by simp
        have B: "events (snd ?r) = events w @ map2 (DeleteSizeMsg d v) (fromLabel # rest) (?sz # sizes)"
          using IH(2) by simp
        have C: "\<forall>st'. fst ?r = Inr st' \<longrightarrow>
                   length (?sz # sizes) = length (fromLabel # rest) \<and>
                   addedVoxels st' = addedVoxels st + sum_list (?sz # sizes) \<and>
                   ?sz # sizes = mergedSizes env v (fromLabel # rest) (store w)"
        proof (intro allI impI)
          fix st'
          assume "fst ?r = Inr st'"
          with IH(3) have h: "length sizes = length rest"
            "addedVoxels st' = addedVoxels ?st2 + sum_list sizes"
            "sizes = mergedSizes env v rest (store ?w2)"
            by blast+
          have L: "length (?sz # sizes) = length (fromLabel # rest)"
            using h(1) by simp
          have AV: "addedVoxels st' = addedVoxels st + sum_list (?sz # sizes)"
            using h(2) by (simp add: add.assoc)
          have MS: "?sz # sizes = mergedSizes env v (fromLabel # rest) (store w)"
            unfolding ms using h(3) by simp
          show "length (?sz # sizes) = length (fromLabel # rest) \<and>
                   addedVoxels st' = addedVoxels st + sum_list (?sz # sizes) \<and>
                   ?sz # sizes = mergedSizes env v (fromLabel # rest) (store w)"
            by (intro conjI L AV MS)
        qed
        show ?thesis
          unfolding step
          by (rule exI[of _ "?sz # sizes"]) (intro conjI A B C)
      qed
    qed
  qed
qed


text \<open>
  Where deleting the key range of one label does not change what is read for another,
  the counts of distinct merged labels are their voxel counts in the store the call
  started with.
\<close>

lemma mergedSizes_initial_store:
  assumes indep: "\<And>st st' l l'. l \<noteq> l' \<Longrightarrow>
            DeleteRange env st (fst (rangeOf env l')) (snd (rangeOf env l')) = Inr st' \<Longrightarrow>
            GetLabelRLEs env st' v l = GetLabelRLEs env st v l"
    and "distinct ls"
    and "length (mergedSizes env v ls st) = length ls"
  shows "list_all2 (\<lambda>l s. \<exists>rles. GetLabelRLEs env st v l = Inr rles \<and> s = NumVoxels rles)
           ls (mergedSizes env v ls st)"
  using assms(2,3)
proof (induction ls arbitrary: st)
  case Nil
  show ?case by simp
next
  case (Cons l ls)
  from Cons.prems(2) obtain rles where g: "GetLabelRLEs env st v l = Inr rles"
    by (cases "GetLabelRLEs env st v l") auto
  show ?case
  proof (cases ls)
    case Nil
    with g Cons.prems(2) show ?thesis by (auto split: sum.splits)
  next
    case (Cons l2 ls2)
    with g \<open>length (mergedSizes env v (l # ls) st) = length (l # ls)\<close>
    obtain st' where d: "DeleteRange env st (fst (rangeOf env l)) (snd (rangeOf env l)) = Inr st'"
      by (cases "DeleteRange env st (fst (rangeOf env l)) (snd (rangeOf env l))") auto
    have len: "length (mergedSizes env v ls st') = length ls"
      using \<open>length (mergedSizes env v (l # ls) st) = length (l # ls)\<close> g d by simp
    have dis: "distinct ls" and nin: "l \<notin> set ls"
      using \<open>distinct (l # ls)\<close> by simp_all
    have ih: "list_all2 (\<lambda>l s. \<exists>rles. GetLabelRLEs env st' v l = Inr rles \<and> s = NumVoxels rles)
                ls (mergedSizes env v ls st')"
      by (rule Cons.IH[OF dis len])
    have same: "\<And>l'. l' \<in> set ls \<Longrightarrow> GetLabelRLEs env st' v l' = GetLabelRLEs env st v l'"
      using indep[OF _ d] nin by metis
    have "list_all2 (\<lambda>l s. \<exists>rles. GetLabelRLEs env st v l = Inr rles \<and> s = NumVoxels rles)
                ls (mergedSizes env v ls st')"
      using ih same by (auto simp: list_all2_conv_all_nth)
    with g d show ?thesis by simp
  qed
qed

lemma MergeLabels_commit_events:
  "events (snd (MergeLabels_commit env d v m oldSize added batch w))
     = events w @ newEvents w (snd (MergeLabels_commit env d v m oldSize added batch w))"
  "prefix (newEvents w (snd (MergeLabels_commit env d v m oldSize added batch w)))
     [ReplaceSizeMsg d v m oldSize added, MergeEndMsg d v m]"
  "fst (MergeLabels_commit env d v m oldSize added batch w) = None \<Longrightarrow>
     newEvents w (snd (MergeLabels_commit env d v m oldSize added batch w))
       = [ReplaceSizeMsg d v m oldSize added, MergeEndMsg d v m]"
  by (auto simp: MergeLabels_commit_def notify_def Let_def ReplaceSizeMsg_def MergeEndMsg_def newEvents_def
           split: sum.splits option.splits)

lemma MergeLabels_body_events:
  "\<exists>sizes p. length sizes \<le> length (Merged m) \<and>
     events (snd (MergeLabels_body env d v m w))
       = events w @ map2 (DeleteSizeMsg d v) (Merged m) sizes @ p \<and>
     prefix (map kindOf p) [MergeBlockEvent, ChangeSizeEvent, MergeEndEvent] \<and>
     (fst (MergeLabels_body env d v m w) = None \<longrightarrow>
        (\<exists>toMap changed. GetLabelRLEs env (store w) v (Target m) = Inr toMap \<and>
           length sizes = length (Merged m) \<and>
           sizes = mergedSizes env v (Merged m) (store w) \<and>
           p = [MergeBlockMsg d v m changed,
                ReplaceSizeMsg d v m (NumVoxels toMap) (sum_list sizes),
                MergeEndMsg d v m]))"
proof (cases "GetLabelRLEs env (store w) v (Target m)")
  case (Inl e)
  then show ?thesis
    by (intro exI[of _ "[]"]) (simp add: MergeLabels_body_def)
next
  case (Inr toMap)
  let ?st0 = "\<lparr>blocksChanged = [], toLabelRLEs = toMap, addedVoxels = 0\<rparr>"
  obtain r1 w1 where ml: "mergeLoop env d v (Merged m) ?st0 w = (r1, w1)"
    by (cases "mergeLoop env d v (Merged m) ?st0 w") auto
  from mergeLoop_trace[of "Merged m" env d v ?st0 w] ml obtain sizes where
    sz: "length sizes \<le> length (Merged m)"
        "events w1 = events w @ map2 (DeleteSizeMsg d v) (Merged m) sizes"
        "\<forall>st'. r1 = Inr st' \<longrightarrow>
           length sizes = length (Merged m) \<and> addedVoxels st' = sum_list sizes \<and>
           sizes = mergedSizes env v (Merged m) (store w)"
    by auto
  show ?thesis
  proof (cases r1)
    case (Inl err)
    with Inr ml sz(1,2) show ?thesis
      by (intro exI[of _ sizes] exI[of _ "[]"]) (simp add: MergeLabels_body_def)
  next
    case st: (Inr st)
    let ?B = "MergeBlockMsg d v m (blocksChanged st)"
    let ?w2 = "w1\<lparr>events := events w1 @ [?B]\<rparr>"
    show ?thesis
    proof (cases "NotifySubscribers env (DataName d, MergeBlockEvent) (v, DeltaMerge m (blocksChanged st))")
      case (Some e)
      with Inr ml sz(1,2) st show ?thesis
        by (intro exI[of _ sizes] exI[of _ "[?B]"])
           (simp add: MergeLabels_body_def notify_def MergeBlockMsg_def kindOf_def)
    next
      case None
      show ?thesis
      proof (cases "putRLEs env (Target m) (toLabelRLEs st) (blocksChanged st) []")
        case (Inl err)
        with Inr ml sz(1,2) st None show ?thesis
          by (intro exI[of _ sizes] exI[of _ "[?B]"])
             (simp add: MergeLabels_body_def notify_def MergeBlockMsg_def kindOf_def)
      next
        case batch: (Inr batch)
        have body: "MergeLabels_body env d v m w
                      = MergeLabels_commit env d v m (NumVoxels toMap) (addedVoxels st) batch ?w2"
          using Inr ml st None batch
          by (simp add: MergeLabels_body_def notify_def MergeBlockMsg_def)
        let ?c = "MergeLabels_commit env d v m (NumVoxels toMap) (addedVoxels st) batch ?w2"
        define p where "p = newEvents ?w2 (snd ?c)"
        have p: "events (snd ?c) = events ?w2 @ p"
             "prefix p [ReplaceSizeMsg d v m (NumVoxels toMap) (addedVoxels st), MergeEndMsg d v m]"
             "fst ?c = None \<longrightarrow>
                p = [ReplaceSizeMsg d v m (NumVoxels toMap) (addedVoxels st), MergeEndMsg d v m]"
          unfolding p_def
          by (rule MergeLabels_commit_events, rule MergeLabels_commit_events,
              simp add: MergeLabels_commit_events(3))
        have k: "prefix (map kindOf p) [ChangeSizeEvent, MergeEndEvent]"
          using map_mono_prefix[OF p(2), of kindOf]
          by (simp add: kindOf_def ReplaceSizeMsg_def MergeEndMsg_def)
        have ev: "events (snd ?c) = events w @ map2 (DeleteSizeMsg d v) (Merged m) sizes @ (?B # p)"
          using p(1) sz(2) by simp
        have kp: "prefix (map kindOf (?B # p)) [MergeBlockEvent, ChangeSizeEvent, MergeEndEvent]"
          using k by (simp add: kindOf_def MergeBlockMsg_def)
        have av: "addedVoxels st = sum_list sizes" and len: "length sizes = length (Merged m)"
          and la: "sizes = mergedSizes env v (Merged m) (store w)"
          using sz(3) st by blast+
        have succ: "fst ?c = None \<longrightarrow>
            (\<exists>toMap' changed. GetLabelRLEs env (store w) v (Target m) = Inr toMap' \<and>
               length sizes = length (Merged m) \<and>
               sizes = mergedSizes env v (Merged m) (store w) \<and>
               ?B # p = [MergeBlockMsg d v m changed,
                    ReplaceSizeMsg d v m (NumVoxels toMap') (sum_list sizes),
                    MergeEndMsg d v m])"
        proof
          assume "fst ?c = None"
          with p(3) have "?B # p = [MergeBlockMsg d v m (blocksChanged st),
                    ReplaceSizeMsg d v m (NumVoxels toMap) (sum_list sizes),
                    MergeEndMsg d v m]"
            by (simp add: av)
          with len la Inr show "\<exists>toMap' changed. GetLabelRLEs env (store w) v (Target m) = Inr toMap' \<and>
               length sizes = length (Merged m) \<and>
               sizes = mergedSizes env v (Merged m) (store w) \<and>
               ?B # p = [MergeBlockMsg d v m changed,
                    ReplaceSizeMsg d v m (NumVoxels toMap') (sum_list sizes),
                    MergeEndMsg d v m]"
            by (intro exI[of _ toMap] exI[of _ "blocksChanged st"] conjI)
        qed
        show ?thesis
          unfolding body
          by (rule exI[of _ sizes], rule exI[of _ "?B # p"]) (intro conjI sz(1) ev kp succ)
      qed
    qed
  qed
qed

lemma map_kindOf_DeleteSizeMsg:
  "length sizes \<le> length ls \<Longrightarrow> map kindOf (map2 (DeleteSizeMsg d v) ls sizes) = replicate (length sizes) ChangeSizeEvent"
proof (induction sizes arbitrary: ls)
  case Nil
  show ?case by simp
next
  case (Cons s sizes)
  then show ?case by (cases ls) (auto simp: kindOf_def DeleteSizeMsg_def)
qed

text \<open>What a call of MergeLabels publishes.\<close>

lemma MergeLabels_events:
  "newEvents w (snd (MergeLabels env d v m w)) = [] \<and> fst (MergeLabels env d v m w) \<noteq> None \<or>
   (\<exists>sizes p. length sizes \<le> length (Merged m) \<and>
      newEvents w (snd (MergeLabels env d v m w))
        = MergeStartMsg d v m # map2 (DeleteSizeMsg d v) (Merged m) sizes @ p \<and>
      prefix (map kindOf p) [MergeBlockEvent, ChangeSizeEvent, MergeEndEvent] \<and>
      (fst (MergeLabels env d v m w) = None \<longrightarrow>
         (\<exists>toMap changed. GetLabelRLEs env (store w) v (Target m) = Inr toMap \<and>
            length sizes = length (Merged m) \<and>
            sizes = mergedSizes env v (Merged m) (store w) \<and>
            p = [MergeBlockMsg d v m changed,
                 ReplaceSizeMsg d v m (NumVoxels toMap) (sum_list sizes),
                 MergeEndMsg d v m])))"
proof (cases "SmallDataStore_err env = None \<and> KeyValueBatcher env")
  case False
  then show ?thesis
    by (auto simp: MergeLabels_def newEvents_def split: option.splits)
next
  case ok: True
  let ?S = "MergeStartMsg d v m"
  let ?w1 = "w\<lparr>events := events w @ [?S]\<rparr>"
  show ?thesis
  proof (cases "NotifySubscribers env (DataName d, MergeStartEvent) (v, DeltaMergeStart m)")
    case (Some e)
    with ok have "newEvents w (snd (MergeLabels env d v m w)) = [?S]" "fst (MergeLabels env d v m w) \<noteq> None"
      by (simp_all add: MergeLabels_def notify_def newEvents_def MergeStartMsg_def)
    then show ?thesis
      by (intro disjI2 exI[of _ "[]"]) simp
  next
    case None
    let ?w2 = "?w1\<lparr>dirtyLabels := AddMerge (dirtyLabels ?w1) (DataName d, v) m\<rparr>"
    let ?b = "MergeLabels_body env d v m ?w2"
    have M: "fst (MergeLabels env d v m w) = fst ?b"
            "events (snd (MergeLabels env d v m w)) = events (snd ?b)"
      using ok None
      by (simp_all add: MergeLabels_def notify_def MergeStartMsg_def split: prod.splits)
    from MergeLabels_body_events[of m env d v ?w2] obtain sizes p where
      b: "length sizes \<le> length (Merged m)"
         "events (snd ?b) = events ?w2 @ map2 (DeleteSizeMsg d v) (Merged m) sizes @ p"
         "prefix (map kindOf p) [MergeBlockEvent, ChangeSizeEvent, MergeEndEvent]"
         "fst ?b = None \<longrightarrow>
        (\<exists>toMap changed. GetLabelRLEs env (store ?w2) v (Target m) = Inr toMap \<and>
           length sizes = length (Merged m) \<and>
           sizes = mergedSizes env v (Merged m) (store ?w2) \<and>
           p = [MergeBlockMsg d v m changed,
                ReplaceSizeMsg d v m (NumVoxels toMap) (sum_list sizes),
                MergeEndMsg d v m])"
      by auto
    have n: "newEvents w (snd (MergeLabels env d v m w)) = ?S # map2 (DeleteSizeMsg d v) (Merged m) sizes @ p"
      unfolding newEvents_def M(2) b(2) by simp
    from b(4) have s: "fst (MergeLabels env d v m w) = None \<longrightarrow>
         (\<exists>toMap changed. GetLabelRLEs env (store w) v (Target m) = Inr toMap \<and>
            length sizes = length (Merged m) \<and>
            sizes = mergedSizes env v (Merged m) (store w) \<and>
            p = [MergeBlockMsg d v m changed,
                 ReplaceSizeMsg d v m (NumVoxels toMap) (sum_list sizes),
                 MergeEndMsg d v m])"
      by (simp add: M(1))
    show ?thesis
      by (rule disjI2, rule exI[of _ sizes], rule exI[of _ p]) (intro conjI b(1) n b(3) s)
  qed
qed

lemma newEvents_trans:
  "events w1 = events w @ newEvents w w1 \<Longrightarrow> events w2 = events w1 @ newEvents w1 w2 \<Longrightarrow>
   newEvents w w2 = newEvents w w1 @ newEvents w1 w2 \<and> events w2 = events w @ newEvents w w2"
  by (metis append.assoc append_eq_conv_conj newEvents_def)

lemma SplitLabels_scan_rel:
  assumes "events w3 = events w @ pre" and "map kindOf pre = [SplitStartEvent, SplitLabelEvent]"
  shows "prefix (map kindOf (drop (length (events w))
            (events (snd (SplitLabels_scan env d v fromLabel toLabel sz splitmap splitblks w3)))))
          [SplitStartEvent, SplitLabelEvent, ChangeSizeEvent, ChangeSizeEvent, SplitEndEvent]"
    and "events (snd (SplitLabels_scan env d v fromLabel toLabel sz splitmap splitblks w3))
          = events w @ drop (length (events w))
              (events (snd (SplitLabels_scan env d v fromLabel toLabel sz splitmap splitblks w3)))"
    and "snd (fst (SplitLabels_scan env d v fromLabel toLabel sz splitmap splitblks w3)) = None \<Longrightarrow>
         map kindOf (drop (length (events w))
            (events (snd (SplitLabels_scan env d v fromLabel toLabel sz splitmap splitblks w3))))
          = [SplitStartEvent, SplitLabelEvent, ChangeSizeEvent, ChangeSizeEvent, SplitEndEvent]"
proof -
  let ?s = "SplitLabels_scan env d v fromLabel toLabel sz splitmap splitblks w3"
  have e: "events (snd ?s) = events w @ pre @ newEvents w3 (snd ?s)"
    using SplitLabels_scan_events(1)[where w = w3] assms(1) by simp
  then have d: "drop (length (events w)) (events (snd ?s)) = pre @ newEvents w3 (snd ?s)" by simp
  show "prefix (map kindOf (drop (length (events w)) (events (snd ?s))))
          [SplitStartEvent, SplitLabelEvent, ChangeSizeEvent, ChangeSizeEvent, SplitEndEvent]"
    unfolding d using SplitLabels_scan_events(2)[where w = w3] assms(2) by simp
  show "events (snd ?s) = events w @ drop (length (events w)) (events (snd ?s))"
    unfolding d using e by simp
  show "snd (fst ?s) = None \<Longrightarrow> map kindOf (drop (length (events w)) (events (snd ?s)))
          = [SplitStartEvent, SplitLabelEvent, ChangeSizeEvent, ChangeSizeEvent, SplitEndEvent]"
    unfolding d using SplitLabels_scan_events(3)[where w = w3] assms(2) by simp
qed

lemma SplitLabels_body_events:
  "events (snd (SplitLabels_body env d v fromLabel r w))
     = events w @ newEvents w (snd (SplitLabels_body env d v fromLabel r w)) \<and>
   prefix (map kindOf (newEvents w (snd (SplitLabels_body env d v fromLabel r w))))
     [SplitStartEvent, SplitLabelEvent, ChangeSizeEvent, ChangeSizeEvent, SplitEndEvent] \<and>
   (snd (fst (SplitLabels_body env d v fromLabel r w)) = None \<longrightarrow>
     map kindOf (newEvents w (snd (SplitLabels_body env d v fromLabel r w)))
       = [SplitStartEvent, SplitLabelEvent, ChangeSizeEvent, ChangeSizeEvent, SplitEndEvent])"
proof -
  have wl: "\<And>a b c res w1 w'. writeLabelVol env v a b c w1 = (res, w') \<Longrightarrow> events w' = events w1"
    using writeLabelVol_frame(1) by (metis snd_conv)
  show ?thesis
    unfolding SplitLabels_body_def
    apply (auto simp: notify_def Let_def newEvents_def kindOf_def
             split: sum.splits option.splits prod.splits dest!: wl)
      apply (rule SplitLabels_scan_rel(2), assumption, simp add: kindOf_def)
     apply (rule SplitLabels_scan_rel(1), assumption, simp add: kindOf_def)
    apply (rule SplitLabels_scan_rel(3), assumption, simp add: kindOf_def, assumption)
    done
qed

lemma SplitLabels_events:
  "prefix (map kindOf (newEvents w (snd (SplitLabels env d v fromLabel r w))))
     [SplitStartEvent, SplitLabelEvent, ChangeSizeEvent, ChangeSizeEvent, SplitEndEvent]"
  "snd (fst (SplitLabels env d v fromLabel r w)) = None \<Longrightarrow>
     map kindOf (newEvents w (snd (SplitLabels env d v fromLabel r w)))
       = [SplitStartEvent, SplitLabelEvent, ChangeSizeEvent, ChangeSizeEvent, SplitEndEvent]"
proof -
  let ?w1 = "w\<lparr>dirtyLabels := Incr (dirtyLabels w) (DataName d, v) fromLabel\<rparr>"
  let ?b = "SplitLabels_body env d v fromLabel r ?w1"
  have n: "newEvents ?w1 = newEvents w" by (rule ext) (simp add: newEvents_def)
  have "(newEvents w (snd (SplitLabels env d v fromLabel r w)) = [] \<and> snd (fst (SplitLabels env d v fromLabel r w)) \<noteq> None) \<or>
        (newEvents w (snd (SplitLabels env d v fromLabel r w)) = newEvents w (snd ?b) \<and>
         fst (SplitLabels env d v fromLabel r w) = fst ?b)"
    by (auto simp: SplitLabels_def newEvents_def split: option.splits prod.splits)
  then show "prefix (map kindOf (newEvents w (snd (SplitLabels env d v fromLabel r w))))
     [SplitStartEvent, SplitLabelEvent, ChangeSizeEvent, ChangeSizeEvent, SplitEndEvent]"
    and "snd (fst (SplitLabels env d v fromLabel r w)) = None \<Longrightarrow>
     map kindOf (newEvents w (snd (SplitLabels env d v fromLabel r w)))
       = [SplitStartEvent, SplitLabelEvent, ChangeSizeEvent, ChangeSizeEvent, SplitEndEvent]"
    using SplitLabels_body_events[where w = ?w1 and env = env and d = d and v = v and fromLabel = fromLabel and r = r]
    by (auto simp: n)
qed

lemma MergeLabels_events_extend:
  "events (snd (MergeLabels env d v m w)) = events w @ newEvents w (snd (MergeLabels env d v m w))"
proof -
  have b: "\<And>w1. \<exists>q. events (snd (MergeLabels_body env d v m w1)) = events w1 @ q"
    using MergeLabels_body_events by blast
  have "\<exists>q. events (snd (MergeLabels env d v m w)) = events w @ q"
  proof (cases "SmallDataStore_err env = None \<and> KeyValueBatcher env \<and>
                NotifySubscribers env (DataName d, MergeStartEvent) (v, DeltaMergeStart m) = None")
    case False
    then show ?thesis
      by (auto simp: MergeLabels_def notify_def split: option.splits)
  next
    case True
    let ?w2 = "w\<lparr>events := events w @ [MergeStartMsg d v m],
                  dirtyLabels := AddMerge (dirtyLabels w) (DataName d, v) m\<rparr>"
    from b[of ?w2] obtain q where "events (snd (MergeLabels_body env d v m ?w2)) = events ?w2 @ q" ..
    with True show ?thesis
      by (auto simp: MergeLabels_def notify_def MergeStartMsg_def split: prod.splits)
  qed
  then show ?thesis by (auto simp: newEvents_def)
qed

lemma SplitLabels_events_extend:
  "events (snd (SplitLabels env d v fromLabel r w)) = events w @ newEvents w (snd (SplitLabels env d v fromLabel r w))"
proof -
  let ?w1 = "w\<lparr>dirtyLabels := Incr (dirtyLabels w) (DataName d, v) fromLabel\<rparr>"
  have "\<exists>q. events (snd (SplitLabels_body env d v fromLabel r ?w1)) = events ?w1 @ q"
    using SplitLabels_body_events[where w = ?w1] by blast
  then have "\<exists>q. events (snd (SplitLabels env d v fromLabel r w)) = events w @ q"
    by (auto simp: SplitLabels_def split: option.splits prod.splits)
  then show ?thesis by (auto simp: newEvents_def)
qed

subsection \<open>The outcome of the commit and the value returned\<close>

text \<open>
  \<^verbatim>\<open>MergeLabels\<close> commits once, at its end; the part of \<^verbatim>\<open>SplitLabels\<close> from the Z range
  on commits once, at its end.  What either returns does not depend on whether that
  commit succeeds.
\<close>

lemma mergeBlock_Commit_err: "mergeBlock (env\<lparr>Commit_err := f\<rparr>) = mergeBlock env"
  by (rule ext, rule ext) (auto simp: mergeBlock_def split: prod.splits option.splits)

lemma mergeLoop_Commit_err:
  "mergeLoop (env\<lparr>Commit_err := f\<rparr>) d v ls st w = mergeLoop env d v ls st w"
  by (induction ls arbitrary: st w)
     (simp_all add: notify_def DeleteRange_def mergeBlock_Commit_err Let_def
               split: sum.splits option.splits prod.splits)

lemma putRLEs_Commit_err:
  "putRLEs (env\<lparr>Commit_err := f\<rparr>) lbl brles blks batch = putRLEs env lbl brles blks batch"
  by (induction blks arbitrary: batch) (simp_all split: sum.splits)

lemma MergeLabels_commit_result:
  "fst (MergeLabels_commit (env\<lparr>Commit_err := f\<rparr>) d v m oldSize added batch w)
     = fst (MergeLabels_commit env d v m oldSize added batch w)"
  by (simp add: MergeLabels_commit_def notify_def Let_def split: option.splits sum.splits)

lemma MergeLabels_commit_result_pair:
  "MergeLabels_commit (env\<lparr>Commit_err := f\<rparr>) d v m oldSize added batch w = (r1, w1) \<Longrightarrow>
   MergeLabels_commit env d v m oldSize added batch w = (r2, w2) \<Longrightarrow> r1 = r2"
  using MergeLabels_commit_result[where env = env and f = f and d = d and v = v and m = m and oldSize = oldSize and added = added and batch = batch and w = w] by simp

lemma MergeLabels_body_result_Commit_err:
  "fst (MergeLabels_body (env\<lparr>Commit_err := f\<rparr>) d v m w) = fst (MergeLabels_body env d v m w)"
  by (auto simp: MergeLabels_body_def notify_def Let_def mergeLoop_Commit_err
        putRLEs_Commit_err MergeLabels_commit_result
        split: option.splits sum.splits prod.splits)

lemma MergeLabels_result_Commit_err:
  "fst (MergeLabels (env\<lparr>Commit_err := f\<rparr>) d v m w) = fst (MergeLabels env d v m w)"
proof -
  have "\<And>w' r1 w1 r2 w2. MergeLabels_body (env\<lparr>Commit_err := f\<rparr>) d v m w' = (r1, w1) \<Longrightarrow>
          MergeLabels_body env d v m w' = (r2, w2) \<Longrightarrow> r1 = r2"
    using MergeLabels_body_result_Commit_err by (metis fst_conv)
  then show ?thesis
    by (auto simp: MergeLabels_def notify_def split: option.splits prod.splits)
qed


lemma chunkProc_Commit_err:
  "chunkProc (env\<lparr>Commit_err := f\<rparr>) fromLabel splitmap splitblks = chunkProc env fromLabel splitmap splitblks"
  by (rule ext, rule ext) (auto simp: chunkProc_def Let_def split: prod.splits sum.splits)

lemma SplitLabels_commit_result:
  "fst (SplitLabels_commit (env\<lparr>Commit_err := f\<rparr>) d v fromLabel toLabel sz batch w)
     = fst (SplitLabels_commit env d v fromLabel toLabel sz batch w)"
  by (simp add: SplitLabels_commit_def notify_def Let_def split: option.splits sum.splits)

lemma SplitLabels_scan_result_Commit_err:
  "fst (SplitLabels_scan (env\<lparr>Commit_err := f\<rparr>) d v fromLabel toLabel sz splitmap splitblks w)
     = fst (SplitLabels_scan env d v fromLabel toLabel sz splitmap splitblks w)"
  by (simp add: SplitLabels_scan_def ProcessRange_def chunkProc_Commit_err SplitLabels_commit_result Let_def
           split: sum.splits error.splits prod.splits option.splits)

text \<open>
  From a failed final commit on: the store is left as it was, the line is written to the
  log, and the value returned is decided by the notifications that follow alone.
\<close>

lemma final_commit_error_only_logged:
  assumes "Commit_err env batch = Some e"
  shows "errlog (snd (MergeLabels_commit env d v m oldSize added batch w))
           = errlog w @ [''Error on updating RLEs for label: '' @ e] \<and>
         store (snd (MergeLabels_commit env d v m oldSize added batch w)) = store w \<and>
         fst (MergeLabels_commit env d v m oldSize added batch w)
           = (case NotifySubscribers env (DataName d, ChangeSizeEvent)
                     (v, DeltaReplaceSize (Target m) oldSize (oldSize + added)) of
                Some e1 \<Rightarrow> Some (Error e1)
              | None \<Rightarrow>
                  (case NotifySubscribers env (DataName d, MergeEndEvent) (v, DeltaMergeEnd m) of
                     Some e2 \<Rightarrow> Some (Error e2)
                   | None \<Rightarrow> None)) \<and>
         errlog (snd (SplitLabels_commit env d v fromLabel toLabel toLabelSize batch w))
           = errlog w @ [''Batch PUT during split of label: '' @ e] \<and>
         store (snd (SplitLabels_commit env d v fromLabel toLabel toLabelSize batch w)) = store w \<and>
         fst (SplitLabels_commit env d v fromLabel toLabel toLabelSize batch w)
           = (case NotifySubscribers env (DataName d, ChangeSizeEvent) (v, DeltaNewSize toLabel toLabelSize) of
                Some e1 \<Rightarrow> (0, Some (Error e1))
              | None \<Rightarrow>
                  (case NotifySubscribers env (DataName d, ChangeSizeEvent)
                          (v, DeltaModSize fromLabel (- toLabelSize)) of
                     Some e2 \<Rightarrow> (0, Some (Error e2))
                   | None \<Rightarrow>
                       (case NotifySubscribers env (DataName d, SplitEndEvent) (v, DeltaSplitEnd fromLabel toLabel) of
                          Some e3 \<Rightarrow> (0, Some (Error e3))
                        | None \<Rightarrow> (toLabel, None)))) \<and>
         fst (MergeLabels (env\<lparr>Commit_err := (\<lambda>b. None)\<rparr>) d v m w) = fst (MergeLabels env d v m w) \<and>
         fst (SplitLabels_scan (env\<lparr>Commit_err := (\<lambda>b. None)\<rparr>) d v fromLabel toLabel toLabelSize splitmap splitblks w)
           = fst (SplitLabels_scan env d v fromLabel toLabel toLabelSize splitmap splitblks w)"
  using assms
  by (simp add: MergeLabels_commit_def SplitLabels_commit_def Commit_def notify_def Let_def
           MergeLabels_result_Commit_err SplitLabels_scan_result_Commit_err
           split: option.splits)

subsection \<open>Reads of \<^verbatim>\<open>splitblks\<close>\<close>

text \<open>
  The two reads of \<^verbatim>\<open>splitblks\<close> by index: \<^verbatim>\<open>splitblks[0]\<close> for the Z range, which
  panics on an empty list, and \<^verbatim>\<open>splitblks[pos]\<close> in the callback, which panics once
  \<^verbatim>\<open>pos\<close> has reached the length.
\<close>

lemma SplitLabels_scan_empty:
  "SplitLabels_scan env d v fromLabel toLabel toLabelSize splitmap [] w
     = ((0, Some (Panic ''index out of range'')), w)"
  by (simp add: SplitLabels_scan_def)

lemma chunkProc_past_end:
  "DecodeKey env K = Inr (lbl, origblk) \<Longrightarrow> length splitblks \<le> pos \<Longrightarrow>
   chunkProc env fromLabel splitmap splitblks (pos, batch) (K, V) = Inl (Panic ''index out of range'')"
  by (simp add: chunkProc_def)

text \<open>
  On equal coordinates, with runs in the split block and runs in the stored block, the
  callback fails and queues nothing: \<^verbatim>\<open>diffBlock\<close> returns no result on two non-empty
  lists.
\<close>

lemma chunkProc_equal_fails:
  assumes "DecodeKey env K = Inr (lbl, origblk)" and "pos < length splitblks"
    and "origblk = splitblks ! pos" and "UnmarshalBinary env V = Inr rles"
    and "lookupRLEs splitmap origblk \<noteq> []" and "rles \<noteq> []"
  shows "\<exists>err. chunkProc env fromLabel splitmap splitblks (pos, batch) (K, V) = Inl err"
proof -
  from diffBlock_no_result[OF assms(5,6)] obtain err
    where "diffBlock (lookupRLEs splitmap origblk) rles = Inl err" ..
  with assms(1-4) show ?thesis
    by (simp add: chunkProc_def)
qed

subsection \<open>Claims about \<^verbatim>\<open>MergeLabels\<close> and \<^verbatim>\<open>SplitLabels\<close>\<close>

text \<open>
  C5.  Whatever the collaborators answer and wherever the call stops (an early error
  return, a later one, a panic in the scan of \<^verbatim>\<open>SplitLabels\<close>), the dirty registry after
  \<^verbatim>\<open>MergeLabels\<close> and after \<^verbatim>\<open>SplitLabels\<close> is the registry before the call: every
  count raised by \<^verbatim>\<open>AddMerge\<close> or \<^verbatim>\<open>Incr\<close> has been lowered again by the deferred
  \<^verbatim>\<open>RemoveMerge\<close> or \<^verbatim>\<open>Decr\<close>, and the paths that return before the marking lower nothing.
\<close>

theorem dirty_marks_released:
  "dirtyLabels (snd (MergeLabels env d v m w)) = dirtyLabels w \<and>
   dirtyLabels (snd (SplitLabels env d v fromLabel r w)) = dirtyLabels w"
  by (simp add: MergeLabels_dirty SplitLabels_dirty)

theorem dirty_marks_released_witness:
  "dirtyLabels (snd (MergeLabels sampleEnv sampleData 0 \<lparr>Target = 1, Merged = [2, 3]\<rparr> (emptyWorld []))) ((''labelvol'', 0), 1) = 0 \<and>
   dirtyLabels (snd (SplitLabels sampleEnv sampleData 0 1 [] (emptyWorld []))) ((''labelvol'', 0), 1) = 0"
  using dirty_marks_released[of sampleEnv sampleData 0 "\<lparr>Target = 1, Merged = [2, 3]\<rparr>" "emptyWorld []" 1 "[]"]
  by (simp add: emptyWorld_def)

text \<open>
  C6.  The notifications a call publishes are appended to those published before it.
  For \<^verbatim>\<open>MergeLabels\<close> their kinds are, on every execution, an initial part of
  MergeStart, ChangeSize (one per merged label reached), MergeBlock, ChangeSize, MergeEnd,
  and the whole sequence, with one ChangeSize per merged label, when the call returns
  nil.  For \<^verbatim>\<open>SplitLabels\<close> they are an initial part of SplitStart, SplitLabel,
  ChangeSize, ChangeSize, SplitEnd, and the whole sequence when the call returns no
  error.  So an End is never published before its Start, nor a size delta before the
  Start.
\<close>

theorem events_in_fixed_order:
  "events (snd (MergeLabels env d v m w)) = events w @ newEvents w (snd (MergeLabels env d v m w)) \<and>
   (\<exists>k\<le>length (Merged m).
      prefix (map kindOf (newEvents w (snd (MergeLabels env d v m w))))
             (MergeStartEvent # replicate k ChangeSizeEvent @ [MergeBlockEvent, ChangeSizeEvent, MergeEndEvent])) \<and>
   (fst (MergeLabels env d v m w) = None \<longrightarrow>
      map kindOf (newEvents w (snd (MergeLabels env d v m w)))
        = MergeStartEvent # replicate (length (Merged m)) ChangeSizeEvent @ [MergeBlockEvent, ChangeSizeEvent, MergeEndEvent]) \<and>
   events (snd (SplitLabels env d v fromLabel r w)) = events w @ newEvents w (snd (SplitLabels env d v fromLabel r w)) \<and>
   prefix (map kindOf (newEvents w (snd (SplitLabels env d v fromLabel r w))))
          [SplitStartEvent, SplitLabelEvent, ChangeSizeEvent, ChangeSizeEvent, SplitEndEvent] \<and>
   (snd (fst (SplitLabels env d v fromLabel r w)) = None \<longrightarrow>
      map kindOf (newEvents w (snd (SplitLabels env d v fromLabel r w)))
        = [SplitStartEvent, SplitLabelEvent, ChangeSizeEvent, ChangeSizeEvent, SplitEndEvent])"
proof -
  let ?M = "MergeLabels env d v m w"
  let ?full = "\<lambda>k. MergeStartEvent # replicate k ChangeSizeEvent @ [MergeBlockEvent, ChangeSizeEvent, MergeEndEvent]"
  have merge: "(\<exists>k\<le>length (Merged m). prefix (map kindOf (newEvents w (snd ?M))) (?full k)) \<and>
               (fst ?M = None \<longrightarrow> map kindOf (newEvents w (snd ?M)) = ?full (length (Merged m)))"
    using MergeLabels_events[of w env d v m]
  proof (elim disjE exE conjE)
    assume "newEvents w (snd ?M) = []" "fst ?M \<noteq> None"
    then show ?thesis by (intro conjI exI[of _ 0]) simp_all
  next
    fix sizes p
    assume len: "length sizes \<le> length (Merged m)"
      and n: "newEvents w (snd ?M) = MergeStartMsg d v m # map2 (DeleteSizeMsg d v) (Merged m) sizes @ p"
      and pre: "prefix (map kindOf p) [MergeBlockEvent, ChangeSizeEvent, MergeEndEvent]"
      and succ: "fst ?M = None \<longrightarrow>
         (\<exists>toMap changed. GetLabelRLEs env (store w) v (Target m) = Inr toMap \<and>
            length sizes = length (Merged m) \<and>
            sizes = mergedSizes env v (Merged m) (store w) \<and>
            p = [MergeBlockMsg d v m changed,
                 ReplaceSizeMsg d v m (NumVoxels toMap) (sum_list sizes),
                 MergeEndMsg d v m])"
    have k: "map kindOf (newEvents w (snd ?M))
               = MergeStartEvent # replicate (length sizes) ChangeSizeEvent @ map kindOf p"
      unfolding n by (simp add: map_kindOf_DeleteSizeMsg[OF len, simplified] kindOf_def MergeStartMsg_def)
    have a: "prefix (map kindOf (newEvents w (snd ?M))) (?full (length sizes))"
      unfolding k using pre by simp
    have b: "fst ?M = None \<longrightarrow> map kindOf (newEvents w (snd ?M)) = ?full (length (Merged m))"
    proof
      assume "fst ?M = None"
      with succ obtain toMap changed where
        "length sizes = length (Merged m)"
        "p = [MergeBlockMsg d v m changed, ReplaceSizeMsg d v m (NumVoxels toMap) (sum_list sizes), MergeEndMsg d v m]"
        by blast
      then show "map kindOf (newEvents w (snd ?M)) = ?full (length (Merged m))"
        unfolding k by (simp add: kindOf_def MergeBlockMsg_def ReplaceSizeMsg_def MergeEndMsg_def)
    qed
    from len a b show ?thesis by blast
  qed
  from merge MergeLabels_events_extend[of env d v m w] SplitLabels_events_extend[of env d v fromLabel r w]
       SplitLabels_events(1)[of w env d v fromLabel r] SplitLabels_events(2)[of env d v fromLabel r w]
  show ?thesis by blast
qed

theorem events_in_fixed_order_witness:
  "map kindOf (newEvents (emptyWorld [([1, 0, 0, 0], [0, 0, 0, 5]), ([2, 0, 0, 0], [5, 0, 0, 3])])
        (snd (MergeLabels sampleEnv sampleData 0 \<lparr>Target = 1, Merged = [2]\<rparr>
               (emptyWorld [([1, 0, 0, 0], [0, 0, 0, 5]), ([2, 0, 0, 0], [5, 0, 0, 3])]))))
     = [MergeStartEvent, ChangeSizeEvent, MergeBlockEvent, ChangeSizeEvent, MergeEndEvent] \<and>
   map kindOf (newEvents (emptyWorld [([1, 0, 0, 0], [0, 0, 0, 5]), ([2, 0, 0, 0], [5, 0, 0, 3])])
        (snd (SplitLabels sampleEnv sampleData 0 5 (0 # replicate 11 0 @ [1, 0, 0, 0] @ [2, 0, 0, 2])
               (emptyWorld [([1, 0, 0, 0], [0, 0, 0, 5]), ([2, 0, 0, 0], [5, 0, 0, 3])]))))
     = [SplitStartEvent, SplitLabelEvent, ChangeSizeEvent, ChangeSizeEvent, SplitEndEvent]"
proof -
  let ?w = "emptyWorld [([1, 0, 0, 0], [0, 0, 0, 5]), ([2, 0, 0, 0], [5, 0, 0, 3])]"
  have m: "fst (MergeLabels sampleEnv sampleData 0 \<lparr>Target = 1, Merged = [2]\<rparr> ?w) = None"
    by code_simp
  have s: "snd (fst (SplitLabels sampleEnv sampleData 0 5 (0 # replicate 11 0 @ [1, 0, 0, 0] @ [2, 0, 0, 2]) ?w)) = None"
    by code_simp
  show ?thesis
    using events_in_fixed_order[of sampleEnv sampleData 0 "\<lparr>Target = 1, Merged = [2]\<rparr>" ?w 5
            "0 # replicate 11 0 @ [1, 0, 0, 0] @ [2, 0, 0, 2]"] m s
    by simp
qed

text \<open>
  C7.  When \<^verbatim>\<open>MergeLabels\<close> returns nil, the notifications of the call carry, in this
  order: the merge start, one \<^verbatim>\<open>DeltaDeleteSize\<close> per merged label, the block-level
  merge, a \<^verbatim>\<open>DeltaReplaceSize\<close> for the target, and the merge end.  \<^verbatim>\<open>OldSize\<close> is the
  voxel count of the target's runs as read from the store the call started with, before
  any union.  \<^verbatim>\<open>NewSize\<close> is \<^verbatim>\<open>OldSize\<close> plus the sum of the voxel counts of the merged
  labels in that store (\<open>mergedSizes\<close>: every merged label has one, read when the key
  ranges of the labels before it were deleted), the counts the \<^verbatim>\<open>DeltaDeleteSize\<close>
  messages carry.  Sums are sums of \<^verbatim>\<open>uint64\<close>, as in the code.
\<close>

theorem replace_size_message:
  assumes "fst (MergeLabels env d v m w) = None"
  shows "\<exists>toMap changed.
           GetLabelRLEs env (store w) v (Target m) = Inr toMap \<and>
           length (mergedSizes env v (Merged m) (store w)) = length (Merged m) \<and>
           map deltaOf (newEvents w (snd (MergeLabels env d v m w)))
             = DeltaMergeStart m #
               map2 (\<lambda>l s. DeltaDeleteSize l s True) (Merged m) (mergedSizes env v (Merged m) (store w)) @
               [DeltaMerge m changed,
                DeltaReplaceSize (Target m) (NumVoxels toMap)
                  (NumVoxels toMap + sum_list (mergedSizes env v (Merged m) (store w))),
                DeltaMergeEnd m]"
  using MergeLabels_events[of w env d v m]
proof (elim disjE exE conjE)
  assume "fst (MergeLabels env d v m w) \<noteq> None"
  with assms show ?thesis by simp
next
  fix sizes p
  assume n: "newEvents w (snd (MergeLabels env d v m w)) = MergeStartMsg d v m # map2 (DeleteSizeMsg d v) (Merged m) sizes @ p"
    and succ: "fst (MergeLabels env d v m w) = None \<longrightarrow>
         (\<exists>toMap changed. GetLabelRLEs env (store w) v (Target m) = Inr toMap \<and>
            length sizes = length (Merged m) \<and>
            sizes = mergedSizes env v (Merged m) (store w) \<and>
            p = [MergeBlockMsg d v m changed,
                 ReplaceSizeMsg d v m (NumVoxels toMap) (sum_list sizes),
                 MergeEndMsg d v m])"
  from succ assms obtain toMap changed where
    t: "GetLabelRLEs env (store w) v (Target m) = Inr toMap"
    and len: "length sizes = length (Merged m)"
    and sz: "sizes = mergedSizes env v (Merged m) (store w)"
    and p: "p = [MergeBlockMsg d v m changed, ReplaceSizeMsg d v m (NumVoxels toMap) (sum_list sizes), MergeEndMsg d v m]"
    by blast
  have "map deltaOf (newEvents w (snd (MergeLabels env d v m w)))
             = DeltaMergeStart m # map2 (\<lambda>l s. DeltaDeleteSize l s True) (Merged m) sizes @
               [DeltaMerge m changed,
                DeltaReplaceSize (Target m) (NumVoxels toMap) (NumVoxels toMap + sum_list sizes),
                DeltaMergeEnd m]"
    unfolding n p
    by (auto simp: deltaOf_def DeleteSizeMsg_def MergeStartMsg_def MergeBlockMsg_def ReplaceSizeMsg_def MergeEndMsg_def)
  with t len show ?thesis
    unfolding sz by (intro exI[of _ toMap] exI[of _ changed] conjI)
qed

theorem replace_size_message_witness:
  "\<exists>changed.
      map deltaOf (newEvents (emptyWorld [([1, 0, 0, 0], [0, 0, 0, 5]), ([2, 0, 0, 0], [5, 0, 0, 3])])
          (snd (MergeLabels sampleEnv sampleData 0 \<lparr>Target = 1, Merged = [2]\<rparr>
                 (emptyWorld [([1, 0, 0, 0], [0, 0, 0, 5]), ([2, 0, 0, 0], [5, 0, 0, 3])]))))
        = [DeltaMergeStart \<lparr>Target = 1, Merged = [2]\<rparr>,
           DeltaDeleteSize 2 3 True,
           DeltaMerge \<lparr>Target = 1, Merged = [2]\<rparr> changed,
           DeltaReplaceSize 1 5 8,
           DeltaMergeEnd \<lparr>Target = 1, Merged = [2]\<rparr>]"
proof -
  let ?st = "[([1, 0, 0, 0], [0, 0, 0, 5]), ([2, 0, 0, 0], [5, 0, 0, 3])] :: store"
  let ?w = "emptyWorld ?st"
  have m: "fst (MergeLabels sampleEnv sampleData 0 \<lparr>Target = 1, Merged = [2]\<rparr> ?w) = None"
    by code_simp
  have g: "GetLabelRLEs sampleEnv (store ?w) 0 (Target \<lparr>Target = 1, Merged = [2]\<rparr>)
             = Inr [([0, 0, 0], [\<lparr>start = (0, 0, 0), length_RLE = 5\<rparr>])]"
    by code_simp
  have nv: "NumVoxels [([0, 0, 0], [\<lparr>start = (0, 0, 0), length_RLE = 5\<rparr>])] = 5"
    by code_simp
  have ms: "mergedSizes sampleEnv 0 (Merged \<lparr>Target = 1, Merged = [2]\<rparr>) (store ?w) = [3]"
    by code_simp
  show ?thesis
    using replace_size_message[OF m]
    unfolding g ms
    by (auto simp: nv)
qed

text \<open>
  C3.  The claim: when the final batch commit fails, the error is logged and returned to
  the caller.  The code logs it and returns nothing of it.  In the merge of label 2 (3
  voxels) into label 1 (5 voxels) below, the commit of the target's unioned block fails
  and every other call succeeds: \<^verbatim>\<open>MergeLabels\<close> returns nil, the log holds the line,
  the size and end events are published (the target is announced with 8 voxels), and the
  store is left with label 2 deleted and label 1 as it was.  In the split below the
  new label's block is written, the final commit fails, and \<^verbatim>\<open>SplitLabels\<close> returns
  \<^verbatim>\<open>(toLabel, nil)\<close> with the line in the log.  \<^verbatim>\<open>writeLabelVol\<close> in the same file returns
  the error of its commit, and \<^verbatim>\<open>DeleteRange\<close> and \<^verbatim>\<open>ProcessRange\<close> errors are returned.
\<close>

theorem final_commit_error_not_returned:
  "fst (MergeLabels (sampleEnv\<lparr>Commit_err := (\<lambda>batch. Some ''disk full'')\<rparr>) sampleData 0
          \<lparr>Target = 1, Merged = [2]\<rparr>
          (emptyWorld [([1, 0, 0, 0], [0, 0, 0, 5]), ([2, 0, 0, 0], [5, 0, 0, 3])])) = None \<and>
   errlog (snd (MergeLabels (sampleEnv\<lparr>Commit_err := (\<lambda>batch. Some ''disk full'')\<rparr>) sampleData 0
          \<lparr>Target = 1, Merged = [2]\<rparr>
          (emptyWorld [([1, 0, 0, 0], [0, 0, 0, 5]), ([2, 0, 0, 0], [5, 0, 0, 3])])))
     = [''Error on updating RLEs for label: disk full''] \<and>
   store (snd (MergeLabels (sampleEnv\<lparr>Commit_err := (\<lambda>batch. Some ''disk full'')\<rparr>) sampleData 0
          \<lparr>Target = 1, Merged = [2]\<rparr>
          (emptyWorld [([1, 0, 0, 0], [0, 0, 0, 5]), ([2, 0, 0, 0], [5, 0, 0, 3])])))
     = [([1, 0, 0, 0], [0, 0, 0, 5])] \<and>
   map deltaOf (events (snd (MergeLabels (sampleEnv\<lparr>Commit_err := (\<lambda>batch. Some ''disk full'')\<rparr>) sampleData 0
          \<lparr>Target = 1, Merged = [2]\<rparr>
          (emptyWorld [([1, 0, 0, 0], [0, 0, 0, 5]), ([2, 0, 0, 0], [5, 0, 0, 3])]))))
     = [DeltaMergeStart \<lparr>Target = 1, Merged = [2]\<rparr>,
        DeltaDeleteSize 2 3 True,
        DeltaMerge \<lparr>Target = 1, Merged = [2]\<rparr> [[0, 0, 0]],
        DeltaReplaceSize 1 5 8,
        DeltaMergeEnd \<lparr>Target = 1, Merged = [2]\<rparr>] \<and>
   fst (SplitLabels
          (sampleEnv\<lparr>Commit_err := (\<lambda>batch. if batch = [Put [9, 0, 0, 0] [2, 0, 0, 2]] then None else Some ''disk full'')\<rparr>)
          sampleData 0 1 (0 # replicate 11 0 @ [1, 0, 0, 0] @ [2, 0, 0, 2])
          (emptyWorld [([1, 0, 0, 1], [0, 0, 0, 5])])) = (9, None) \<and>
   errlog (snd (SplitLabels
          (sampleEnv\<lparr>Commit_err := (\<lambda>batch. if batch = [Put [9, 0, 0, 0] [2, 0, 0, 2]] then None else Some ''disk full'')\<rparr>)
          sampleData 0 1 (0 # replicate 11 0 @ [1, 0, 0, 0] @ [2, 0, 0, 2])
          (emptyWorld [([1, 0, 0, 1], [0, 0, 0, 5])])))
     = [''Batch PUT during split of label: disk full''] \<and>
   map kindOf (events (snd (SplitLabels
          (sampleEnv\<lparr>Commit_err := (\<lambda>batch. if batch = [Put [9, 0, 0, 0] [2, 0, 0, 2]] then None else Some ''disk full'')\<rparr>)
          sampleData 0 1 (0 # replicate 11 0 @ [1, 0, 0, 0] @ [2, 0, 0, 2])
          (emptyWorld [([1, 0, 0, 1], [0, 0, 0, 5])]))))
     = [SplitStartEvent, SplitLabelEvent, ChangeSizeEvent, ChangeSizeEvent, SplitEndEvent]"
  by code_simp

text \<open>
  C8.  A payload of at least 12 bytes whose first byte is not the binary encoding tag
  makes \<^verbatim>\<open>SplitLabels\<close> return an error, never a panic, and leaves the block entries of
  the store as they were, for \<^verbatim>\<open>fromLabel\<close>, the new label and every other label.
\<close>

theorem bad_encoding_rejected:
  assumes "12 \<le> length r" and "r ! 0 \<noteq> EncodingBinary env"
  shows "(\<exists>msg. snd (fst (SplitLabels env d v fromLabel r w)) = Some (Error msg)) \<and>
         store (snd (SplitLabels env d v fromLabel r w)) = store w"
  using assms
  by (auto simp: SplitLabels_def SplitLabels_body_def notify_def ReadFull_def
           split: option.splits prod.splits)

theorem bad_encoding_rejected_witness:
  "(\<exists>msg. snd (fst (SplitLabels sampleEnv sampleData 0 1 (1 # replicate 11 0 @ [1, 0, 0, 0, 2, 0, 0, 2])
                      (emptyWorld [([1, 0, 0, 0], [0, 0, 0, 5])]))) = Some (Error msg)) \<and>
   store (snd (SplitLabels sampleEnv sampleData 0 1 (1 # replicate 11 0 @ [1, 0, 0, 0, 2, 0, 0, 2])
                 (emptyWorld [([1, 0, 0, 0], [0, 0, 0, 5])]))) = [([1, 0, 0, 0], [0, 0, 0, 5])]"
proof -
  let ?r = "1 # replicate 11 0 @ [1, 0, 0, 0, 2, 0, 0, 2] :: bytes"
  have a: "12 \<le> length ?r" by simp
  have b: "?r ! 0 \<noteq> EncodingBinary sampleEnv" by (simp add: sampleEnv_def)
  show ?thesis
    using bad_encoding_rejected[OF a b, of sampleData 0 1 "emptyWorld [([1, 0, 0, 0], [0, 0, 0, 5])]"]
    by (simp add: emptyWorld_def)
qed

text \<open>
  C9.  The claim: \<^verbatim>\<open>SplitLabels\<close> never reads \<^verbatim>\<open>splitblks\<close> out of range.  A payload
  with the binary tag and a run count of zero decodes to no runs, its partition has no
  block, and \<^verbatim>\<open>splitblks[0]\<close> panics.  A payload of one run in block (0, 0, 0), with
  the blocks (0, 0, 1) and (0, 0, 2) of \<^verbatim>\<open>fromLabel\<close> in the store, moves \<^verbatim>\<open>pos\<close> to 1 at
  the first block and panics at \<^verbatim>\<open>splitblks[1]\<close> at the second: the test
  \<^verbatim>\<open>pos >= len(splitblks)\<close> comes after the read it should guard.
\<close>

theorem splitblks_index_out_of_range:
  "fst (SplitLabels sampleEnv sampleData 0 1 (0 # replicate 11 0 @ [0, 0, 0, 0]) (emptyWorld []))
     = (0, Some (Panic ''index out of range'')) \<and>
   fst (SplitLabels sampleEnv sampleData 0 1 (0 # replicate 11 0 @ [1, 0, 0, 0] @ [2, 0, 0, 2])
          (emptyWorld [([1, 0, 0, 1], [0, 0, 0, 5]), ([1, 0, 0, 2], [0, 0, 0, 5])]))
     = (0, Some (Panic ''index out of range''))"
  by code_simp

text \<open>
  C2.  The claim: the cursor advances only when the coordinates matched or the original
  is behind the cursor, and on equal coordinates the differencer is called, a full
  duplicate queues a delete of the original key and anything else a put of the reduced
  runs; the comment above the scan says the same (``if the two are identical, delete the
  original, and if not, modify the original'').  The code does not do it.  With the split
  block (0, 0, 0) holding the run [2, 4): a stored block (0, 0, 0) holding the same run, a
  full duplicate, makes the callback panic in \<^verbatim>\<open>diffBlock\<close> and queues no delete; a stored
  block (0, 0, 0) holding [0, 10) makes it panic and queues no put; a stored block
  (0, 0, 1), neither equal to the cursor's block nor behind it, advances the cursor.  And
  since the cursor does not advance on a match but on the block after it, with split
  blocks (0, 0, 0) and (0, 0, 2) the stored block (0, 0, 2) is passed without a call of the
  differencer.
\<close>

theorem split_scan_queues_nothing:
  "chunkProc sampleEnv 1 [([0, 0, 0], [\<lparr>start = (2, 0, 0), length_RLE = 2\<rparr>])] [[0, 0, 0]] (0, [])
      ([1, 0, 0, 0], [2, 0, 0, 2]) = Inl (Panic ''nil pointer dereference'') \<and>
   chunkProc sampleEnv 1 [([0, 0, 0], [\<lparr>start = (2, 0, 0), length_RLE = 2\<rparr>])] [[0, 0, 0]] (0, [])
      ([1, 0, 0, 0], [0, 0, 0, 10]) = Inl (Panic ''nil pointer dereference'') \<and>
   fst (SplitLabels sampleEnv sampleData 0 1 (0 # replicate 11 0 @ [1, 0, 0, 0] @ [2, 0, 0, 2])
          (emptyWorld [([1, 0, 0, 0], [2, 0, 0, 2])])) = (0, Some (Panic ''nil pointer dereference'')) \<and>
   store (snd (SplitLabels sampleEnv sampleData 0 1 (0 # replicate 11 0 @ [1, 0, 0, 0] @ [2, 0, 0, 2])
          (emptyWorld [([1, 0, 0, 0], [2, 0, 0, 2])])))
     = [([1, 0, 0, 0], [2, 0, 0, 2]), ([9, 0, 0, 0], [2, 0, 0, 2])] \<and>
   chunkProc sampleEnv 1 [([0, 0, 0], [\<lparr>start = (2, 0, 0), length_RLE = 2\<rparr>])] [[0, 0, 0]] (0, [])
      ([1, 0, 0, 1], [0, 0, 0, 5]) = Inr (1, []) \<and>
   DecodeKey sampleEnv [1, 0, 0, 1] = Inr (1, [0, 0, 1]) \<and>
   [0, 0, 1] \<noteq> ([0, 0, 0] :: IZYXString) \<and>
   \<not> [0, 0, 1] < ([0, 0, 0] :: IZYXString) \<and>
   processChunks
      (chunkProc sampleEnv 1
         [([0, 0, 0], [\<lparr>start = (2, 0, 0), length_RLE = 2\<rparr>]),
          ([0, 0, 2], [\<lparr>start = (2, 0, 64), length_RLE = 2\<rparr>])]
         [[0, 0, 0], [0, 0, 2]])
      [([1, 0, 0, 2], [2, 0, 64, 2])] (0, []) = Inr (1, [])"
  by code_simp

end
